theory Spec2Isabelle
  imports Complex_Main "HOL-Library.Multiset" "HOL-Library.List_Lexorder"
begin

section \<open>Python values\<close>

text \<open>
  A Python \<open>str\<close> is a sequence of Unicode code points and \<open>len\<close> counts
  them, so a string is modelled as the list of its code points. The literals of
  \<open>src/agent/graph.py\<close> that are not ASCII are written out code point by code point,
  each with the line it stands on and a gloss; the ASCII ones (dictionary keys, stage
  names, node names) are written with \<open>ascii\<close>.
\<close>

type_synonym pystr = "nat list"

definition ascii :: "string \<Rightarrow> pystr" where
  "ascii s = map of_char s"

text \<open>\<open>sep.join(parts)\<close>.\<close>

fun join :: "pystr \<Rightarrow> pystr list \<Rightarrow> pystr" where
  "join sep [] = []"
| "join sep [x] = x"
| "join sep (x # y # ys) = x @ sep @ join sep (y # ys)"

text \<open>\<open>str(i)\<close> for a natural number: its decimal digits.\<close>

function str_nat :: "nat \<Rightarrow> pystr" where
  "str_nat n = (if n < 10 then [48 + n] else str_nat (n div 10) @ [48 + n mod 10])"
  by pat_completeness auto
termination
  by (relation "measure (\<lambda>n. n)") auto

text \<open>
  A key of the state dictionary is absent, or holds \<open>None\<close>, or holds a value:
  the fields of \<open>MultiAgentState\<close> are declared \<open>Optional\<close>, and
  \<open>state.get(key, default)\<close> gives the default only for an absent key.
  The result of \<open>state.get\<close> is an \<open>option\<close>, \<open>None\<close> being Python's \<open>None\<close>.
\<close>

datatype 'a field = Absent | PyNone | Val 'a

fun state_get :: "'a field \<Rightarrow> 'a \<Rightarrow> 'a option" where
  "state_get Absent d = Some d"
| "state_get PyNone d = None"
| "state_get (Val v) d = Some v"

text \<open>\<open>state.get(key)\<close>, without a default.\<close>

fun state_lookup :: "'a field \<Rightarrow> 'a option" where
  "state_lookup Absent = None"
| "state_lookup PyNone = None"
| "state_lookup (Val v) = Some v"

text \<open>Truth values of Python: \<open>None\<close>, the empty string and \<open>False\<close> are false.\<close>

fun truthy_str :: "pystr option \<Rightarrow> bool" where
  "truthy_str None = False"
| "truthy_str (Some s) = (s \<noteq> [])"

fun truthy_bool :: "bool option \<Rightarrow> bool" where
  "truthy_bool None = False"
| "truthy_bool (Some b) = b"

text \<open>\<open>f"{query}"\<close>: the string itself, and \<open>"None"\<close> for \<open>None\<close>.\<close>

fun format_str :: "pystr option \<Rightarrow> pystr" where
  "format_str None = ascii ''None''"
| "format_str (Some s) = s"

text \<open>
  The exceptions a run can end with, other than the one of the recursion limit: those
  the nodes raise outside their own \<open>try\<close> blocks, a routing result that is in no
  table, and a recursion limit below 1.
\<close>

datatype pyerror = TypeError | KeyError | ValueError

section \<open>The data model\<close>

datatype message = HumanMessage (content: pystr) | AIMessage (content: pystr)

text \<open>
  \<open>confidence_score\<close> is a Python \<open>float\<close>. The only float of the program is the
  literal \<open>0.8\<close>, and nothing is computed with it, so a score is modelled as the
  rational number the binary64 value stands for.
\<close>

record AgentFeedback =
  agent_name :: pystr
  feedback_type :: pystr
  feedback_content :: pystr
  confidence_score :: rat
  suggested_improvements :: "pystr list"

text \<open>
  \<open>MultiAgentState\<close>. The three channels declared with a reducer (\<open>messages\<close>,
  \<open>analyses\<close>, \<open>completion_status\<close>) always hold a value, which starts empty; the
  others are keys that may be absent.
\<close>

record MultiAgentState =
  messages :: "message list"
  original_query :: "pystr field"
  analyses :: "pystr list"
  agent_feedbacks :: "AgentFeedback list field"
  revision_count :: "int field"
  consensus_reached :: "bool field"
  final_report :: "pystr field"
  workflow_stage :: "pystr field"
  completion_status :: "pystr \<rightharpoonup> bool"

text \<open>
  What a node returns: a dictionary with some of the keys of the state. \<open>None\<close> is a
  key the dictionary does not have. The value written to \<open>analyses\<close> is a list or,
  as \<open>add_analyses\<close> allows, a bare string.
\<close>

datatype analyses_value = StrValue pystr | ListValue "pystr list"

record update =
  u_messages :: "message list option"
  u_original_query :: "pystr option"
  u_analyses :: "analyses_value option"
  u_agent_feedbacks :: "AgentFeedback list option"
  u_revision_count :: "int option"
  u_consensus_reached :: "bool option"
  u_final_report :: "pystr option"
  u_workflow_stage :: "pystr option"
  u_completion_status :: "(pystr \<rightharpoonup> bool) option"

definition no_update :: update where
  "no_update =
     \<lparr>u_messages = None, u_original_query = None, u_analyses = None,
      u_agent_feedbacks = None, u_revision_count = None, u_consensus_reached = None,
      u_final_report = None, u_workflow_stage = None, u_completion_status = None\<rparr>"

section \<open>The reducers\<close>

text \<open>\<open>add_analyses\<close> (line 53). \<open>existing\<close> may be \<open>None\<close>.\<close>

definition add_analyses :: "pystr list option \<Rightarrow> analyses_value \<Rightarrow> pystr list" where
  "add_analyses existing new =
     (let existing = (case existing of None \<Rightarrow> [] | Some xs \<Rightarrow> xs);
          new = (case new of StrValue s \<Rightarrow> [s] | ListValue xs \<Rightarrow> xs)
      in existing @ new)"

text \<open>\<open>add_completion_status\<close> (line 62): \<open>{**existing, **new}\<close>.\<close>

definition add_completion_status ::
  "(pystr \<rightharpoonup> bool) option \<Rightarrow> (pystr \<rightharpoonup> bool) \<Rightarrow> (pystr \<rightharpoonup> bool)" where
  "add_completion_status existing new =
     (let existing = (case existing of None \<Rightarrow> Map.empty | Some m \<Rightarrow> m)
      in existing ++ new)"

text \<open>
  \<open>add_messages\<close> is the library's reducer of the message list. The nodes only
  write new messages without an id, which it appends.
\<close>

definition add_messages :: "message list \<Rightarrow> message list \<Rightarrow> message list" where
  "add_messages existing new = existing @ new"

text \<open>
  Merging one node's update into the state: a channel with a reducer is combined with it,
  every other key is overwritten.
\<close>

definition apply_update :: "MultiAgentState \<Rightarrow> update \<Rightarrow> MultiAgentState" where
  "apply_update state u =
     \<lparr>messages = (case u_messages u of None \<Rightarrow> messages state
                   | Some new \<Rightarrow> add_messages (messages state) new),
      original_query = (case u_original_query u of None \<Rightarrow> original_query state
                   | Some v \<Rightarrow> Val v),
      analyses = (case u_analyses u of None \<Rightarrow> analyses state
                   | Some new \<Rightarrow> add_analyses (Some (analyses state)) new),
      agent_feedbacks = (case u_agent_feedbacks u of None \<Rightarrow> agent_feedbacks state
                   | Some v \<Rightarrow> Val v),
      revision_count = (case u_revision_count u of None \<Rightarrow> revision_count state
                   | Some v \<Rightarrow> Val v),
      consensus_reached = (case u_consensus_reached u of None \<Rightarrow> consensus_reached state
                   | Some v \<Rightarrow> Val v),
      final_report = (case u_final_report u of None \<Rightarrow> final_report state
                   | Some v \<Rightarrow> Val v),
      workflow_stage = (case u_workflow_stage u of None \<Rightarrow> workflow_stage state
                   | Some v \<Rightarrow> Val v),
      completion_status = (case u_completion_status u of None \<Rightarrow> completion_status state
                   | Some new \<Rightarrow> add_completion_status (Some (completion_status state)) new)\<rparr>"

section \<open>The analysts and the clock\<close>

text \<open>
  The four agents are language models: what an invocation returns is not decided by
  the program. The environment gives, for an agent, a task and the number of invocations
  made before, either the content of the last message of the result or the text of the
  exception raised inside the node's \<open>try\<close> block; and the text of each reading of the
  clock. The world records the invocations made and counts the readings of the clock.
  Writing to the log is not modelled.
\<close>

datatype agent = fundamental_agent | technical_agent | risk_agent | senior_agent

datatype outcome = Returns pystr | Raises pystr

record env =
  agent_result :: "agent \<Rightarrow> pystr \<Rightarrow> nat \<Rightarrow> outcome"
  clock_text :: "nat \<Rightarrow> pystr"

record world =
  calls :: "(agent \<times> pystr) list"
  clock_reads :: nat

definition invoke :: "env \<Rightarrow> agent \<Rightarrow> pystr \<Rightarrow> world \<Rightarrow> outcome \<times> world" where
  "invoke e a task w =
     (agent_result e a task (length (calls w)), w\<lparr>calls := calls w @ [(a, task)]\<rparr>)"

text \<open>\<open>datetime.now().strftime("%Y-%m-%d %H:%M:%S")\<close>.\<close>

definition strftime_now :: "env \<Rightarrow> world \<Rightarrow> pystr \<times> world" where
  "strftime_now e w = (clock_text e (clock_reads w), w\<lparr>clock_reads := Suc (clock_reads w)\<rparr>)"

section \<open>The string literals of the source\<close>

text \<open>Line 373, the title of the start message: "multi-agent collaborative analysis started".\<close>

definition coordinator_title :: pystr where
  "coordinator_title =
    [0x591A, 0x41, 0x67, 0x65, 0x6E, 0x74, 0x534F, 0x4F5C, 0x5206, 0x6790,
     0x542F, 0x52A8]"

text \<open>Line 374, before the query: "task content:" (with a full-width colon).\<close>

definition coordinator_task_head :: pystr where
  "coordinator_task_head =
    [0x4EFB, 0x52A1, 0x5185, 0x5BB9, 0xFF1A]"

text \<open>Line 374, after the query: a line break and "dispatching the fundamental, technical and risk analysts for parallel analysis...".\<close>

definition coordinator_task_tail :: pystr where
  "coordinator_task_tail =
    [0xA, 0x6B63, 0x5728, 0x8C03, 0x5EA6, 0x57FA, 0x672C, 0x9762, 0x5206, 0x6790,
     0x5E08, 0x3001, 0x6280, 0x672F, 0x5206, 0x6790, 0x5E08, 0x3001, 0x98CE, 0x9669,
     0x5206, 0x6790, 0x5E08, 0x8FDB, 0x884C, 0x5E76, 0x884C, 0x5206, 0x6790, 0x2E,
     0x2E, 0x2E]"

text \<open>Line 375, the name shown for the coordinator: "system coordinator".\<close>

definition coordinator_name :: pystr where
  "coordinator_name =
    [0x7CFB, 0x7EDF, 0x534F, 0x8C03, 0x5668]"

text \<open>Line 394, the task given to the fundamental analyst, before the query: "please analyse the following investment target ...: ".\<close>

definition fundamental_task_prefix :: pystr where
  "fundamental_task_prefix =
    [0x8BF7, 0x5BF9, 0x4EE5, 0x4E0B, 0x6295, 0x8D44, 0x6807, 0x7684, 0x8FDB, 0x884C,
     0x6DF1, 0x5165, 0x7684, 0x57FA, 0x672C, 0x9762, 0x5206, 0x6790, 0x3A, 0x20]"

text \<open>Line 401, the report title of the fundamental analysis.\<close>

definition fundamental_title :: pystr where
  "fundamental_title =
    [0x57FA, 0x672C, 0x9762, 0x5206, 0x6790, 0x62A5, 0x544A]"

text \<open>Line 403, the display name of the fundamental analyst.\<close>

definition fundamental_expert :: pystr where
  "fundamental_expert =
    [0x57FA, 0x672C, 0x9762, 0x5206, 0x6790, 0x4E13, 0x5BB6]"

text \<open>Line 410, the tag that starts the fundamental entry of the analysis list: "<role> analysis: ".\<close>

definition fundamental_tag :: pystr where
  "fundamental_tag =
    [0x57FA, 0x672C, 0x9762, 0x5206, 0x6790, 0x3A, 0x20]"

text \<open>Line 423, the start of the fundamental entry after a failure: "<role> analysis: analysis failed - ".\<close>

definition fundamental_failed_tag :: pystr where
  "fundamental_failed_tag =
    [0x57FA, 0x672C, 0x9762, 0x5206, 0x6790, 0x3A, 0x20, 0x5206, 0x6790, 0x5931,
     0x8D25, 0x20, 0x2D, 0x20]"

text \<open>Line 436, the task given to the technical analyst, before the query: "please analyse the following investment target ...: ".\<close>

definition technical_task_prefix :: pystr where
  "technical_task_prefix =
    [0x8BF7, 0x5BF9, 0x4EE5, 0x4E0B, 0x6295, 0x8D44, 0x6807, 0x7684, 0x8FDB, 0x884C,
     0x4E13, 0x4E1A, 0x7684, 0x6280, 0x672F, 0x9762, 0x5206, 0x6790, 0x3A, 0x20]"

text \<open>Line 443, the report title of the technical analysis.\<close>

definition technical_title :: pystr where
  "technical_title =
    [0x6280, 0x672F, 0x5206, 0x6790, 0x62A5, 0x544A]"

text \<open>Line 445, the display name of the technical analyst.\<close>

definition technical_expert :: pystr where
  "technical_expert =
    [0x6280, 0x672F, 0x5206, 0x6790, 0x4E13, 0x5BB6]"

text \<open>Line 452, the tag that starts the technical entry of the analysis list: "<role> analysis: ".\<close>

definition technical_tag :: pystr where
  "technical_tag =
    [0x6280, 0x672F, 0x5206, 0x6790, 0x3A, 0x20]"

text \<open>Line 465, the start of the technical entry after a failure: "<role> analysis: analysis failed - ".\<close>

definition technical_failed_tag :: pystr where
  "technical_failed_tag =
    [0x6280, 0x672F, 0x5206, 0x6790, 0x3A, 0x20, 0x5206, 0x6790, 0x5931, 0x8D25,
     0x20, 0x2D, 0x20]"

text \<open>Line 478, the task given to the risk analyst, before the query: "please analyse the following investment target ...: ".\<close>

definition risk_task_prefix :: pystr where
  "risk_task_prefix =
    [0x8BF7, 0x5BF9, 0x4EE5, 0x4E0B, 0x6295, 0x8D44, 0x6807, 0x7684, 0x8FDB, 0x884C,
     0x5168, 0x9762, 0x7684, 0x98CE, 0x9669, 0x8BC4, 0x4F30, 0x3A, 0x20]"

text \<open>Line 485, the report title of the risk analysis.\<close>

definition risk_title :: pystr where
  "risk_title =
    [0x98CE, 0x9669, 0x8BC4, 0x4F30, 0x62A5, 0x544A]"

text \<open>Line 487, the display name of the risk analyst.\<close>

definition risk_expert :: pystr where
  "risk_expert =
    [0x98CE, 0x9669, 0x7BA1, 0x7406, 0x4E13, 0x5BB6]"

text \<open>Line 494, the tag that starts the risk entry of the analysis list: "<role> analysis: ".\<close>

definition risk_tag :: pystr where
  "risk_tag =
    [0x98CE, 0x9669, 0x5206, 0x6790, 0x3A, 0x20]"

text \<open>Line 507, the start of the risk entry after a failure: "<role> analysis: analysis failed - ".\<close>

definition risk_failed_tag :: pystr where
  "risk_failed_tag =
    [0x98CE, 0x9669, 0x5206, 0x6790, 0x3A, 0x20, 0x5206, 0x6790, 0x5931, 0x8D25,
     0x20, 0x2D, 0x20]"

text \<open>Lines 418, 460 and 502 (the same literal), before the error text: "an error occurred during the analysis: ".\<close>

definition error_during_analysis :: pystr where
  "error_during_analysis =
    [0x5206, 0x6790, 0x8FC7, 0x7A0B, 0x4E2D, 0x51FA, 0x73B0, 0x9519, 0x8BEF, 0x3A,
     0x20]"

text \<open>Line 526: "all specialist analyses are complete, preparing the peer review...".\<close>

definition all_completed_message :: pystr where
  "all_completed_message =
    [0x1F4DD, 0x20, 0x6240, 0x6709, 0x4E13, 0x4E1A, 0x5206, 0x6790, 0x5DF2, 0x5B8C,
     0x6210, 0xFF0C, 0x6B63, 0x5728, 0x51C6, 0x5907, 0x540C, 0x884C, 0x8BC4, 0x8BAE,
     0x2E, 0x2E, 0x2E]"

text \<open>Line 548, the placeholder of the peer review: "[peer review] no analysis results available for review".\<close>

definition no_analysis_message :: pystr where
  "no_analysis_message =
    [0x3010, 0x540C, 0x884C, 0x8BC4, 0x8BAE, 0x3011, 0x6CA1, 0x6709, 0x5206, 0x6790,
     0x7ED3, 0x679C, 0x53EF, 0x4F9B, 0x8BC4, 0x8BAE]"

text \<open>Line 556, the review task of the fundamental analyst, before the combined analyses.\<close>

definition fundamental_review_task_head :: pystr where
  "fundamental_review_task_head =
    [0xA, 0x20, 0x20, 0x20, 0x20, 0x4F5C, 0x4E3A, 0x57FA, 0x672C, 0x9762,
     0x5206, 0x6790, 0x4E13, 0x5BB6, 0xFF0C, 0x8BF7, 0x8BC4, 0x5BA1, 0x4EE5, 0x4E0B,
     0x6280, 0x672F, 0x5206, 0x6790, 0x548C, 0x98CE, 0x9669, 0x5206, 0x6790, 0x7684,
     0x8D28, 0x91CF, 0xFF1A, 0xA, 0x20, 0x20, 0x20, 0x20, 0xA, 0x20,
     0x20, 0x20, 0x20]"

text \<open>Line 556, the review task of the fundamental analyst, after the combined analyses: the four points to look at and the answer format.\<close>

definition fundamental_review_task_tail :: pystr where
  "fundamental_review_task_tail =
    [0xA, 0x20, 0x20, 0x20, 0x20, 0xA, 0x20, 0x20, 0x20, 0x20,
     0x8BF7, 0x91CD, 0x70B9, 0x5173, 0x6CE8, 0xFF1A, 0xA, 0x20, 0x20, 0x20,
     0x20, 0x31, 0x2E, 0x20, 0x5206, 0x6790, 0x903B, 0x8F91, 0x662F, 0x5426,
     0x5408, 0x7406, 0xA, 0x20, 0x20, 0x20, 0x20, 0x32, 0x2E, 0x20,
     0x662F, 0x5426, 0x4E0E, 0x57FA, 0x672C, 0x9762, 0x5206, 0x6790, 0x7ED3, 0x679C,
     0x4E00, 0x81F4, 0xA, 0x20, 0x20, 0x20, 0x20, 0x33, 0x2E, 0x20,
     0x6709, 0x54EA, 0x4E9B, 0x9057, 0x6F0F, 0x6216, 0x9519, 0x8BEF, 0xA, 0x20,
     0x20, 0x20, 0x20, 0x34, 0x2E, 0x20, 0x63D0, 0x51FA, 0x5177, 0x4F53,
     0x6539, 0x8FDB, 0x5EFA, 0x8BAE, 0xA, 0x20, 0x20, 0x20, 0x20, 0xA,
     0x20, 0x20, 0x20, 0x20, 0x683C, 0x5F0F, 0xFF1A, 0x3010, 0x57FA, 0x672C,
     0x9762, 0x5206, 0x6790, 0x5E08, 0x8BC4, 0x5BA1, 0x3011, 0xA, 0x20, 0x20,
     0x20, 0x20, 0x8BC4, 0x5BA1, 0x610F, 0x89C1, 0xFF1A, 0x2E, 0x2E, 0x2E,
     0xA, 0x20, 0x20, 0x20, 0x20, 0x6539, 0x8FDB, 0x5EFA, 0x8BAE, 0xFF1A,
     0x2E, 0x2E, 0x2E, 0xA, 0x20, 0x20, 0x20, 0x20]"

text \<open>Line 575, the heading of the fundamental analyst's review, with its line break: "[<role> analyst review]".\<close>

definition fundamental_review_tag :: pystr where
  "fundamental_review_tag =
    [0x3010, 0x57FA, 0x672C, 0x9762, 0x5206, 0x6790, 0x5E08, 0x8BC4, 0x5BA1, 0x3011,
     0xA]"

text \<open>Line 579, the fixed placeholder after a failed fundamental review: "[<role> analyst review] an error occurred during the review".\<close>

definition fundamental_review_failed :: pystr where
  "fundamental_review_failed =
    [0x3010, 0x57FA, 0x672C, 0x9762, 0x5206, 0x6790, 0x5E08, 0x8BC4, 0x5BA1, 0x3011,
     0x8BC4, 0x5BA1, 0x8FC7, 0x7A0B, 0x4E2D, 0x51FA, 0x73B0, 0x9519, 0x8BEF]"

text \<open>Line 582, the review task of the technical analyst, before the combined analyses.\<close>

definition technical_review_task_head :: pystr where
  "technical_review_task_head =
    [0xA, 0x20, 0x20, 0x20, 0x20, 0x4F5C, 0x4E3A, 0x6280, 0x672F, 0x5206,
     0x6790, 0x4E13, 0x5BB6, 0xFF0C, 0x8BF7, 0x8BC4, 0x5BA1, 0x4EE5, 0x4E0B, 0x57FA,
     0x672C, 0x9762, 0x5206, 0x6790, 0x548C, 0x98CE, 0x9669, 0x5206, 0x6790, 0x7684,
     0x8D28, 0x91CF, 0xFF1A, 0xA, 0x20, 0x20, 0x20, 0x20, 0xA, 0x20,
     0x20, 0x20, 0x20]"

text \<open>Line 582, the review task of the technical analyst, after the combined analyses: the four points to look at and the answer format.\<close>

definition technical_review_task_tail :: pystr where
  "technical_review_task_tail =
    [0xA, 0x20, 0x20, 0x20, 0x20, 0xA, 0x20, 0x20, 0x20, 0x20,
     0x8BF7, 0x91CD, 0x70B9, 0x5173, 0x6CE8, 0xFF1A, 0xA, 0x20, 0x20, 0x20,
     0x20, 0x31, 0x2E, 0x20, 0x5206, 0x6790, 0x662F, 0x5426, 0x7ED3, 0x5408,
     0x4E86, 0x5E02, 0x573A, 0x6280, 0x672F, 0x9762, 0x60C5, 0x51B5, 0xA, 0x20,
     0x20, 0x20, 0x20, 0x32, 0x2E, 0x20, 0x65F6, 0x673A, 0x5224, 0x65AD,
     0x662F, 0x5426, 0x5408, 0x7406, 0xA, 0x20, 0x20, 0x20, 0x20, 0x33,
     0x2E, 0x20, 0x4EF7, 0x683C, 0x76EE, 0x6807, 0x662F, 0x5426, 0x7B26, 0x5408,
     0x6280, 0x672F, 0x9762, 0x652F, 0x6491, 0xA, 0x20, 0x20, 0x20, 0x20,
     0x34, 0x2E, 0x20, 0x63D0, 0x51FA, 0x5177, 0x4F53, 0x6539, 0x8FDB, 0x5EFA,
     0x8BAE, 0xA, 0x20, 0x20, 0x20, 0x20, 0xA, 0x20, 0x20, 0x20,
     0x20, 0x683C, 0x5F0F, 0xFF1A, 0x3010, 0x6280, 0x672F, 0x5206, 0x6790, 0x5E08,
     0x8BC4, 0x5BA1, 0x3011, 0xA, 0x20, 0x20, 0x20, 0x20, 0x8BC4, 0x5BA1,
     0x610F, 0x89C1, 0xFF1A, 0x2E, 0x2E, 0x2E, 0xA, 0x20, 0x20, 0x20,
     0x20, 0x6539, 0x8FDB, 0x5EFA, 0x8BAE, 0xFF1A, 0x2E, 0x2E, 0x2E, 0xA,
     0x20, 0x20, 0x20, 0x20]"

text \<open>Line 601, the heading of the technical analyst's review, with its line break: "[<role> analyst review]".\<close>

definition technical_review_tag :: pystr where
  "technical_review_tag =
    [0x3010, 0x6280, 0x672F, 0x5206, 0x6790, 0x5E08, 0x8BC4, 0x5BA1, 0x3011, 0xA]"

text \<open>Line 605, the fixed placeholder after a failed technical review: "[<role> analyst review] an error occurred during the review".\<close>

definition technical_review_failed :: pystr where
  "technical_review_failed =
    [0x3010, 0x6280, 0x672F, 0x5206, 0x6790, 0x5E08, 0x8BC4, 0x5BA1, 0x3011, 0x8BC4,
     0x5BA1, 0x8FC7, 0x7A0B, 0x4E2D, 0x51FA, 0x73B0, 0x9519, 0x8BEF]"

text \<open>Line 608, the review task of the risk analyst, before the combined analyses.\<close>

definition risk_review_task_head :: pystr where
  "risk_review_task_head =
    [0xA, 0x20, 0x20, 0x20, 0x20, 0x4F5C, 0x4E3A, 0x98CE, 0x9669, 0x7BA1,
     0x7406, 0x4E13, 0x5BB6, 0xFF0C, 0x8BF7, 0x8BC4, 0x5BA1, 0x4EE5, 0x4E0B, 0x57FA,
     0x672C, 0x9762, 0x5206, 0x6790, 0x548C, 0x6280, 0x672F, 0x5206, 0x6790, 0x7684,
     0x8D28, 0x91CF, 0xFF1A, 0xA, 0x20, 0x20, 0x20, 0x20, 0xA, 0x20,
     0x20, 0x20, 0x20]"

text \<open>Line 608, the review task of the risk analyst, after the combined analyses: the four points to look at and the answer format.\<close>

definition risk_review_task_tail :: pystr where
  "risk_review_task_tail =
    [0xA, 0x20, 0x20, 0x20, 0x20, 0xA, 0x20, 0x20, 0x20, 0x20,
     0x8BF7, 0x91CD, 0x70B9, 0x5173, 0x6CE8, 0xFF1A, 0xA, 0x20, 0x20, 0x20,
     0x20, 0x31, 0x2E, 0x20, 0x98CE, 0x9669, 0x56E0, 0x7D20, 0x662F, 0x5426,
     0x88AB, 0x5145, 0x5206, 0x8BC6, 0x522B, 0xA, 0x20, 0x20, 0x20, 0x20,
     0x32, 0x2E, 0x20, 0x98CE, 0x9669, 0x8BC4, 0x4F30, 0x662F, 0x5426, 0x5BA2,
     0x89C2, 0x51C6, 0x786E, 0xA, 0x20, 0x20, 0x20, 0x20, 0x33, 0x2E,
     0x20, 0x98CE, 0x9669, 0x63A7, 0x5236, 0x5EFA, 0x8BAE, 0x662F, 0x5426, 0x5B9E,
     0x7528, 0xA, 0x20, 0x20, 0x20, 0x20, 0x34, 0x2E, 0x20, 0x63D0,
     0x51FA, 0x5177, 0x4F53, 0x6539, 0x8FDB, 0x5EFA, 0x8BAE, 0xA, 0x20, 0x20,
     0x20, 0x20, 0xA, 0x20, 0x20, 0x20, 0x20, 0x683C, 0x5F0F, 0xFF1A,
     0x3010, 0x98CE, 0x9669, 0x5206, 0x6790, 0x5E08, 0x8BC4, 0x5BA1, 0x3011, 0xA,
     0x20, 0x20, 0x20, 0x20, 0x8BC4, 0x5BA1, 0x610F, 0x89C1, 0xFF1A, 0x2E,
     0x2E, 0x2E, 0xA, 0x20, 0x20, 0x20, 0x20, 0x6539, 0x8FDB, 0x5EFA,
     0x8BAE, 0xFF1A, 0x2E, 0x2E, 0x2E, 0xA, 0x20, 0x20, 0x20, 0x20]"

text \<open>Line 627, the heading of the risk analyst's review, with its line break: "[<role> analyst review]".\<close>

definition risk_review_tag :: pystr where
  "risk_review_tag =
    [0x3010, 0x98CE, 0x9669, 0x5206, 0x6790, 0x5E08, 0x8BC4, 0x5BA1, 0x3011, 0xA]"

text \<open>Line 631, the fixed placeholder after a failed risk review: "[<role> analyst review] an error occurred during the review".\<close>

definition risk_review_failed :: pystr where
  "risk_review_failed =
    [0x3010, 0x98CE, 0x9669, 0x5206, 0x6790, 0x5E08, 0x8BC4, 0x5BA1, 0x3011, 0x8BC4,
     0x5BA1, 0x8FC7, 0x7A0B, 0x4E2D, 0x51FA, 0x73B0, 0x9519, 0x8BEF]"

text \<open>Line 645, the single suggested improvement: "optimise the analysis based on the review results".\<close>

definition improvement_hint :: pystr where
  "improvement_hint =
    [0x57FA, 0x4E8E, 0x8BC4, 0x8BAE, 0x7ED3, 0x679C, 0x4F18, 0x5316, 0x5206, 0x6790]"

text \<open>Line 664, the synthesis task, before the combined content.\<close>

definition synthesis_task_head :: pystr where
  "synthesis_task_head =
    [0xA, 0x20, 0x20, 0x20, 0x20, 0x4F5C, 0x4E3A, 0x8D44, 0x6DF1, 0x6295,
     0x8D44, 0x603B, 0x76D1, 0xFF0C, 0x8BF7, 0x57FA, 0x4E8E, 0x4EE5, 0x4E0B, 0x4E13,
     0x4E1A, 0x5206, 0x6790, 0x5E08, 0x7684, 0x5DE5, 0x4F5C, 0x6210, 0x679C, 0x548C,
     0x540C, 0x884C, 0x8BC4, 0x8BAE, 0x7ED3, 0x679C, 0xFF0C, 0xA, 0x20, 0x20,
     0x20, 0x20, 0x5F62, 0x6210, 0x6700, 0x7EC8, 0x7684, 0x7EFC, 0x5408, 0x6295,
     0x8D44, 0x5206, 0x6790, 0x62A5, 0x544A, 0xFF1A, 0xA, 0x20, 0x20, 0x20,
     0x20, 0xA, 0x20, 0x20, 0x20, 0x20]"

text \<open>Line 664, the synthesis task, after the combined content: the five parts asked for and the requirements.\<close>

definition synthesis_task_tail :: pystr where
  "synthesis_task_tail =
    [0xA, 0x20, 0x20, 0x20, 0x20, 0xA, 0x20, 0x20, 0x20, 0x20,
     0x8BF7, 0x63D0, 0x4F9B, 0xFF1A, 0xA, 0x20, 0x20, 0x20, 0x20, 0x31,
     0x2E, 0x20, 0x1F4CB, 0x20, 0x6267, 0x884C, 0x6458, 0x8981, 0xA, 0x20,
     0x20, 0x20, 0x20, 0x32, 0x2E, 0x20, 0x1F3AF, 0x20, 0x7EFC, 0x5408,
     0x6295, 0x8D44, 0x5EFA, 0x8BAE, 0xA, 0x20, 0x20, 0x20, 0x20, 0x33,
     0x2E, 0x20, 0x26A0, 0xFE0F, 0x20, 0x5173, 0x952E, 0x98CE, 0x9669, 0x63D0,
     0x793A, 0xA, 0x20, 0x20, 0x20, 0x20, 0x34, 0x2E, 0x20, 0x1F4CA,
     0x20, 0x6295, 0x8D44, 0x8BC4, 0x7EA7, 0x548C, 0x76EE, 0x6807, 0x4EF7, 0x4F4D,
     0xA, 0x20, 0x20, 0x20, 0x20, 0x35, 0x2E, 0x20, 0x1F50D, 0x20,
     0x5404, 0x4E13, 0x4E1A, 0x5206, 0x6790, 0x7684, 0x6574, 0x5408, 0x548C, 0x8D28,
     0x91CF, 0x8BC4, 0x4F30, 0xA, 0x20, 0x20, 0x20, 0x20, 0xA, 0x20,
     0x20, 0x20, 0x20, 0x8981, 0x6C42, 0xFF1A, 0xA, 0x20, 0x20, 0x20,
     0x20, 0x2D, 0x20, 0x903B, 0x8F91, 0x6E05, 0x6670, 0xFF0C, 0x7ED3, 0x8BBA,
     0x660E, 0x786E, 0xA, 0x20, 0x20, 0x20, 0x20, 0x2D, 0x20, 0x5145,
     0x5206, 0x8003, 0x8651, 0x5404, 0x65B9, 0x610F, 0x89C1, 0xA, 0x20, 0x20,
     0x20, 0x20, 0x2D, 0x20, 0x8BC6, 0x522B, 0x5E76, 0x89E3, 0x51B3, 0x5206,
     0x6790, 0x4E2D, 0x7684, 0x77DB, 0x76FE, 0xA, 0x20, 0x20, 0x20, 0x20,
     0x2D, 0x20, 0x63D0, 0x4F9B, 0x5B9E, 0x7528, 0x7684, 0x6295, 0x8D44, 0x6307,
     0x5BFC, 0xA, 0x20, 0x20, 0x20, 0x20, 0x2D, 0x20, 0x683C, 0x5F0F,
     0x7F8E, 0x89C2, 0xFF0C, 0x6761, 0x7406, 0x6E05, 0x6670, 0xA, 0x20, 0x20,
     0x20, 0x20]"

text \<open>Line 702, before the error text in the formatted report: "an error occurred during the synthesis: ".\<close>

definition synthesis_error_head :: pystr where
  "synthesis_error_head =
    [0x7EFC, 0x5408, 0x5206, 0x6790, 0x8FC7, 0x7A0B, 0x4E2D, 0x51FA, 0x73B0, 0x9519,
     0x8BEF, 0x3A, 0x20]"

text \<open>Line 705, the start of the stored report after a failure: "synthesis failed: ".\<close>

definition synthesis_failed_prefix :: pystr where
  "synthesis_failed_prefix =
    [0x7EFC, 0x5408, 0x5206, 0x6790, 0x5931, 0x8D25, 0x3A, 0x20]"

section \<open>Formatting\<close>

text \<open>\<open>"=" * n\<close>, the separator line of the three formatting functions.\<close>

definition separator :: "nat \<Rightarrow> pystr" where
  "separator n = replicate n 0x3D"

text \<open>
  \<open>format_analysis_output\<close> (line 302). The template is a line break, the separator,
  a chart sign and the title, an office-worker sign and "analyst:" with the agent's
  name, a clock sign and "analysis time:" with the time, the separator, the content
  between blank lines, and the separator.
\<close>

definition format_analysis_output ::
  "env \<Rightarrow> pystr \<Rightarrow> pystr \<Rightarrow> pystr \<Rightarrow> world \<Rightarrow> pystr \<times> world" where
  "format_analysis_output e title content' agent_name' w =
     (let (timestamp, w') = strftime_now e w;
          formatted_content =
            [0xA] @ separator 60 @ [0xA, 0x1F4CA, 0x20] @ title
            @ [0xA, 0x1F468, 0x200D, 0x1F4BC, 0x20, 0x5206, 0x6790, 0x5E08, 0xFF1A] @ agent_name'
            @ [0xA, 0x23F0, 0x20, 0x5206, 0x6790, 0x65F6, 0x95F4, 0xFF1A] @ timestamp
            @ [0xA] @ separator 60 @ [0xA, 0xA] @ content' @ [0xA, 0xA] @ separator 60 @ [0xA]
      in (formatted_content, w'))"

text \<open>
  The loop of \<open>format_review_output\<close> (line 333): for the \<open>i\<close>-th review, counted
  from 1, a memo sign, "review \<open>i\<close>:", the review on its own line and a blank line.
\<close>

fun review_items :: "nat \<Rightarrow> pystr list \<Rightarrow> pystr" where
  "review_items i [] = []"
| "review_items i (review # reviews) =
     [0x1F4DD, 0x20, 0x8BC4, 0x8BAE, 0x20] @ str_nat i @ [0x3A, 0xA] @ review @ [0xA, 0xA]
     @ review_items (Suc i) reviews"

text \<open>
  \<open>format_review_output\<close> (line 320): the heading "peer review stage" with the time
  of the review between two separators, the numbered reviews, and the separator.
\<close>

definition format_review_output :: "env \<Rightarrow> pystr list \<Rightarrow> world \<Rightarrow> pystr \<times> world" where
  "format_review_output e reviews w =
     (let (timestamp, w') = strftime_now e w;
          formatted_content =
            [0xA] @ separator 60
            @ [0xA, 0x1F50D, 0x20, 0x540C, 0x884C, 0x8BC4, 0x8BAE, 0x9636, 0x6BB5, 0xA,
               0x23F0, 0x20, 0x8BC4, 0x8BAE, 0x65F6, 0x95F4, 0xFF1A] @ timestamp
            @ [0xA] @ separator 60 @ [0xA, 0xA];
          formatted_content = formatted_content @ review_items 1 reviews;
          formatted_content = formatted_content @ separator 60 @ [0xA]
      in (formatted_content, w'))"

text \<open>
  \<open>format_final_report\<close> (line 339): the heading "final comprehensive investment
  analysis report, completed by multi-agent collaboration" with the time of the report,
  the content, and the closing line "report complete - based on multi-expert
  collaboration and peer review", between separators of 80 signs.
\<close>

definition format_final_report :: "env \<Rightarrow> pystr \<Rightarrow> world \<Rightarrow> pystr \<times> world" where
  "format_final_report e content' w =
     (let (timestamp, w') = strftime_now e w;
          formatted_content =
            [0xA] @ separator 80
            @ [0xA, 0x1F3AF, 0x20, 0x6700, 0x7EC8, 0x7EFC, 0x5408, 0x6295, 0x8D44, 0x5206,
               0x6790, 0x62A5, 0x544A, 0xA, 0x1F4C8, 0x20, 0x591A, 0x41, 0x67, 0x65,
               0x6E, 0x74, 0x534F, 0x4F5C, 0x5B8C, 0x6210, 0xA, 0x23F0, 0x20, 0x62A5,
               0x544A, 0x65F6, 0x95F4, 0xFF1A] @ timestamp
            @ [0xA] @ separator 80 @ [0xA, 0xA] @ content' @ [0xA, 0xA] @ separator 80
            @ [0xA, 0x2705, 0x20, 0x62A5, 0x544A, 0x5B8C, 0x6210, 0x20, 0x2D, 0x20,
               0x57FA, 0x4E8E, 0x591A, 0x4E13, 0x5BB6, 0x534F, 0x4F5C, 0x4E0E, 0x540C, 0x884C,
               0x8BC4, 0x8BAE, 0xA] @ separator 80 @ [0xA]
      in (formatted_content, w'))"

section \<open>The nodes\<close>

text \<open>\<open>coordinator_node\<close> (line 361).\<close>

definition coordinator_node :: "env \<Rightarrow> MultiAgentState \<Rightarrow> world \<Rightarrow> update \<times> world" where
  "coordinator_node e state w =
     (let user_query = [];
          user_query =
            (if truthy_str (state_lookup (original_query state))
               then (case original_query state of Val q \<Rightarrow> q | _ \<Rightarrow> user_query)
             else if messages state \<noteq> [] \<and> length (messages state) > 0
               then content (hd (messages state))
             else user_query);
          (start_message, w') =
            format_analysis_output e coordinator_title
              (coordinator_task_head @ user_query @ coordinator_task_tail)
              coordinator_name w
      in (no_update\<lparr>u_messages := Some [AIMessage start_message],
                     u_original_query := Some user_query,
                     u_workflow_stage := Some (ascii ''coordination_started''),
                     u_completion_status := Some Map.empty\<rparr>, w'))"

text \<open>
  The query of the three analysis nodes (lines 388 to 390, 430 to 432 and 472 to 474, the
  same three lines): \<open>original_query\<close>, or the content of the first message when that
  is empty, \<open>None\<close> or absent and there is a message. Nothing is raised when both are
  empty: the query stays what it was.
\<close>

definition get_query :: "MultiAgentState \<Rightarrow> pystr option" where
  "get_query state =
     (let query = state_get (original_query state) []
      in if \<not> truthy_str query \<and> messages state \<noteq> []
         then Some (content (hd (messages state)))
         else query)"

text \<open>\<open>fundamental_analysis_node\<close> (line 385).\<close>

definition fundamental_analysis_node ::
  "env \<Rightarrow> MultiAgentState \<Rightarrow> world \<Rightarrow> update \<times> world" where
  "fundamental_analysis_node e state w =
     (let query = get_query state;
          task = fundamental_task_prefix @ format_str query
      in case invoke e fundamental_agent task w of
           (Returns analysis_content, w1) \<Rightarrow>
             (let (formatted_output, w2) =
                    format_analysis_output e fundamental_title analysis_content
                      fundamental_expert w1
              in (no_update\<lparr>u_messages := Some [AIMessage formatted_output],
                     u_analyses := Some (ListValue [fundamental_tag @ analysis_content]),
                     u_completion_status := Some [ascii ''fundamental'' \<mapsto> True]\<rparr>, w2))
         | (Raises err, w1) \<Rightarrow>
             (let (error_msg, w2) =
                    format_analysis_output e fundamental_title (error_during_analysis @ err)
                      fundamental_expert w1
              in (no_update\<lparr>u_messages := Some [AIMessage error_msg],
                     u_analyses := Some (ListValue [fundamental_failed_tag @ err]),
                     u_completion_status := Some [ascii ''fundamental'' \<mapsto> False]\<rparr>, w2)))"

text \<open>\<open>technical_analysis_node\<close> (line 427).\<close>

definition technical_analysis_node ::
  "env \<Rightarrow> MultiAgentState \<Rightarrow> world \<Rightarrow> update \<times> world" where
  "technical_analysis_node e state w =
     (let query = get_query state;
          task = technical_task_prefix @ format_str query
      in case invoke e technical_agent task w of
           (Returns analysis_content, w1) \<Rightarrow>
             (let (formatted_output, w2) =
                    format_analysis_output e technical_title analysis_content
                      technical_expert w1
              in (no_update\<lparr>u_messages := Some [AIMessage formatted_output],
                     u_analyses := Some (ListValue [technical_tag @ analysis_content]),
                     u_completion_status := Some [ascii ''technical'' \<mapsto> True]\<rparr>, w2))
         | (Raises err, w1) \<Rightarrow>
             (let (error_msg, w2) =
                    format_analysis_output e technical_title (error_during_analysis @ err)
                      technical_expert w1
              in (no_update\<lparr>u_messages := Some [AIMessage error_msg],
                     u_analyses := Some (ListValue [technical_failed_tag @ err]),
                     u_completion_status := Some [ascii ''technical'' \<mapsto> False]\<rparr>, w2)))"

text \<open>\<open>risk_analysis_node\<close> (line 469).\<close>

definition risk_analysis_node ::
  "env \<Rightarrow> MultiAgentState \<Rightarrow> world \<Rightarrow> update \<times> world" where
  "risk_analysis_node e state w =
     (let query = get_query state;
          task = risk_task_prefix @ format_str query
      in case invoke e risk_agent task w of
           (Returns analysis_content, w1) \<Rightarrow>
             (let (formatted_output, w2) =
                    format_analysis_output e risk_title analysis_content risk_expert w1
              in (no_update\<lparr>u_messages := Some [AIMessage formatted_output],
                     u_analyses := Some (ListValue [risk_tag @ analysis_content]),
                     u_completion_status := Some [ascii ''risk'' \<mapsto> True]\<rparr>, w2))
         | (Raises err, w1) \<Rightarrow>
             (let (error_msg, w2) =
                    format_analysis_output e risk_title (error_during_analysis @ err)
                      risk_expert w1
              in (no_update\<lparr>u_messages := Some [AIMessage error_msg],
                     u_analyses := Some (ListValue [risk_failed_tag @ err]),
                     u_completion_status := Some [ascii ''risk'' \<mapsto> False]\<rparr>, w2)))"

text \<open>\<open>completion_status.get(key, False)\<close>.\<close>

definition status_get :: "(pystr \<rightharpoonup> bool) \<Rightarrow> pystr \<Rightarrow> bool" where
  "status_get m k = (case m k of None \<Rightarrow> False | Some b \<Rightarrow> b)"

text \<open>\<open>wait_for_analyses_node\<close> (line 511).\<close>

definition wait_for_analyses_node :: "MultiAgentState \<Rightarrow> update" where
  "wait_for_analyses_node state =
     (let completion_status' = completion_status state;
          completed = [status_get completion_status' (ascii ''fundamental''),
                       status_get completion_status' (ascii ''technical''),
                       status_get completion_status' (ascii ''risk'')]
      in if list_all (\<lambda>b. b) completed
         then no_update\<lparr>u_workflow_stage := Some (ascii ''all_analyses_completed''),
                        u_messages := Some [AIMessage all_completed_message]\<rparr>
         else no_update\<lparr>u_workflow_stage := Some (ascii ''waiting_for_analyses'')\<rparr>)"

text \<open>
  \<open>peer_review_node\<close> (line 534). Each of the three invocations has a \<open>try\<close> block
  of its own: a review that raises leaves its fixed placeholder in \<open>feedbacks\<close>.
\<close>

definition peer_review_node :: "env \<Rightarrow> MultiAgentState \<Rightarrow> world \<Rightarrow> update \<times> world" where
  "peer_review_node e state w =
     (let analyses' = analyses state;
          combined_analysis = join [0xA, 0xA] analyses'
      in if combined_analysis = []
         then (no_update\<lparr>u_messages := Some [AIMessage no_analysis_message],
                        u_workflow_stage := Some (ascii ''peer_review_completed'')\<rparr>, w)
         else
           (let feedbacks = [];
                fundamental_review_task =
                  fundamental_review_task_head @ combined_analysis @ fundamental_review_task_tail;
                (fundamental_review, w1) = invoke e fundamental_agent fundamental_review_task w;
                feedbacks = feedbacks @
                  [case fundamental_review of
                     Returns c \<Rightarrow> fundamental_review_tag @ c
                   | Raises err \<Rightarrow> fundamental_review_failed];
                technical_review_task =
                  technical_review_task_head @ combined_analysis @ technical_review_task_tail;
                (technical_review, w2) = invoke e technical_agent technical_review_task w1;
                feedbacks = feedbacks @
                  [case technical_review of
                     Returns c \<Rightarrow> technical_review_tag @ c
                   | Raises err \<Rightarrow> technical_review_failed];
                risk_review_task =
                  risk_review_task_head @ combined_analysis @ risk_review_task_tail;
                (risk_review, w3) = invoke e risk_agent risk_review_task w2;
                feedbacks = feedbacks @
                  [case risk_review of
                     Returns c \<Rightarrow> risk_review_tag @ c
                   | Raises err \<Rightarrow> risk_review_failed];
                (formatted_feedback, w4) = format_review_output e feedbacks w3
            in (no_update\<lparr>u_messages := Some [AIMessage formatted_feedback],
                   u_agent_feedbacks := Some
                     [\<lparr>agent_name = ascii ''peer_review'',
                       feedback_type = ascii ''critique'',
                       feedback_content = formatted_feedback,
                       confidence_score = 3602879701896397 / 4503599627370496,
                       suggested_improvements = [improvement_hint]\<rparr>],
                   u_workflow_stage := Some (ascii ''peer_review_completed'')\<rparr>, w4)))"

text \<open>The contents of the messages that are an \<open>AIMessage\<close> (lines 657 to 660).\<close>

fun ai_contents :: "message list \<Rightarrow> pystr list" where
  "ai_contents [] = []"
| "ai_contents (AIMessage c # msgs) = c # ai_contents msgs"
| "ai_contents (HumanMessage c # msgs) = ai_contents msgs"

text \<open>\<open>senior_synthesis_node\<close> (line 651).\<close>

definition senior_synthesis_node ::
  "env \<Rightarrow> MultiAgentState \<Rightarrow> world \<Rightarrow> update \<times> world" where
  "senior_synthesis_node e state w =
     (let all_content = ai_contents (messages state);
          combined_content = join [0xA, 0xA] all_content;
          synthesis_task = synthesis_task_head @ combined_content @ synthesis_task_tail
      in case invoke e senior_agent synthesis_task w of
           (Returns final_report_content, w1) \<Rightarrow>
             (let (formatted_final_report, w2) = format_final_report e final_report_content w1
              in (no_update\<lparr>u_messages := Some [AIMessage formatted_final_report],
                     u_final_report := Some final_report_content,
                     u_consensus_reached := Some True,
                     u_workflow_stage := Some (ascii ''synthesis_completed'')\<rparr>, w2))
         | (Raises err, w1) \<Rightarrow>
             (let (error_report, w2) = format_final_report e (synthesis_error_head @ err) w1
              in (no_update\<lparr>u_messages := Some [AIMessage error_report],
                     u_final_report := Some (synthesis_failed_prefix @ err),
                     u_consensus_reached := Some True,
                     u_workflow_stage := Some (ascii ''synthesis_failed'')\<rparr>, w2)))"

text \<open>
  \<open>consensus_check_node\<close> (line 710). Comparing \<open>None\<close> with 2 and taking the length
  of \<open>None\<close> raise a \<open>TypeError\<close>; the report is read only when the count is below 2.
\<close>

definition consensus_check_node :: "MultiAgentState \<Rightarrow> pyerror + update" where
  "consensus_check_node state =
     (case state_get (revision_count state) 0 of
        None \<Rightarrow> Inl TypeError
      | Some revision_count' \<Rightarrow>
          if revision_count' < 2 then
            (case state_get (final_report state) [] of
               None \<Rightarrow> Inl TypeError
             | Some final_report' \<Rightarrow>
                 if length final_report' > 500
                 then Inr (no_update\<lparr>u_consensus_reached := Some True,
                             u_revision_count := Some revision_count',
                             u_workflow_stage := Some (ascii ''consensus_checked'')\<rparr>)
                 else Inr (no_update\<lparr>u_consensus_reached := Some False,
                             u_revision_count := Some (revision_count' + 1),
                             u_workflow_stage := Some (ascii ''consensus_checked'')\<rparr>))
          else Inr (no_update\<lparr>u_consensus_reached := Some True,
                      u_revision_count := Some revision_count',
                      u_workflow_stage := Some (ascii ''consensus_checked'')\<rparr>))"

section \<open>The routing functions\<close>

text \<open>The library's name of the end of the graph.\<close>

definition END :: pystr where
  "END = ascii ''__end__''"

text \<open>\<open>check_consensus_routing\<close> (line 741).\<close>

definition check_consensus_routing :: "MultiAgentState \<Rightarrow> pystr" where
  "check_consensus_routing state =
     (if truthy_bool (state_get (consensus_reached state) False)
      then END
      else ascii ''peer_review'')"

text \<open>
  \<open>check_analyses_completion\<close> (line 750). The list \<open>missing\<close> of its second branch
  is only written to the log.
\<close>

definition check_analyses_completion :: "MultiAgentState \<Rightarrow> pystr" where
  "check_analyses_completion state =
     (let completion_status' = completion_status state;
          completed = [status_get completion_status' (ascii ''fundamental''),
                       status_get completion_status' (ascii ''technical''),
                       status_get completion_status' (ascii ''risk'')]
      in if list_all (\<lambda>b. b) completed
         then ascii ''peer_review''
         else ascii ''wait_for_analyses'')"

section \<open>The graph\<close>

text \<open>The nodes \<open>build_multi_agent_graph\<close> (line 773) adds, by their names.\<close>

datatype node =
  coordinator | fundamental_analysis | technical_analysis | risk_analysis
  | wait_for_analyses | peer_review | senior_synthesis | consensus_check

text \<open>The names the nodes are added under (lines 778 to 785).\<close>

fun node_name :: "node \<Rightarrow> pystr" where
  "node_name coordinator = ascii ''coordinator''"
| "node_name fundamental_analysis = ascii ''fundamental_analysis''"
| "node_name technical_analysis = ascii ''technical_analysis''"
| "node_name risk_analysis = ascii ''risk_analysis''"
| "node_name wait_for_analyses = ascii ''wait_for_analyses''"
| "node_name peer_review = ascii ''peer_review''"
| "node_name senior_synthesis = ascii ''senior_synthesis''"
| "node_name consensus_check = ascii ''consensus_check''"

fun run_node ::
  "env \<Rightarrow> node \<Rightarrow> MultiAgentState \<Rightarrow> world \<Rightarrow> pyerror + (update \<times> world)" where
  "run_node e coordinator state w = Inr (coordinator_node e state w)"
| "run_node e fundamental_analysis state w = Inr (fundamental_analysis_node e state w)"
| "run_node e technical_analysis state w = Inr (technical_analysis_node e state w)"
| "run_node e risk_analysis state w = Inr (risk_analysis_node e state w)"
| "run_node e wait_for_analyses state w = Inr (wait_for_analyses_node state, w)"
| "run_node e peer_review state w = Inr (peer_review_node e state w)"
| "run_node e senior_synthesis state w = Inr (senior_synthesis_node e state w)"
| "run_node e consensus_check state w =
     (case consensus_check_node state of Inl err \<Rightarrow> Inl err | Inr u \<Rightarrow> Inr (u, w))"

text \<open>
  The two tables of the conditional edges (lines 805 and 821): what the routing function
  returns, and the nodes that run next. The end of the graph is no node.
\<close>

definition completion_path_map :: "(pystr \<times> node list) list" where
  "completion_path_map =
     [(ascii ''peer_review'', [peer_review]),
      (ascii ''wait_for_analyses'', [wait_for_analyses])]"

definition consensus_path_map :: "(pystr \<times> node list) list" where
  "consensus_path_map =
     [(END, []),
      (ascii ''peer_review'', [peer_review])]"

text \<open>
  The edges (lines 788 to 825): the nodes that run after a node, given the state that
  holds its update. A routing result that is not in the table is a \<open>KeyError\<close>.
\<close>

fun successors :: "node \<Rightarrow> MultiAgentState \<Rightarrow> node list option" where
  "successors coordinator state =
     Some [fundamental_analysis, technical_analysis, risk_analysis]"
| "successors fundamental_analysis state = Some [wait_for_analyses]"
| "successors technical_analysis state = Some [wait_for_analyses]"
| "successors risk_analysis state = Some [wait_for_analyses]"
| "successors wait_for_analyses state =
     map_of completion_path_map (check_analyses_completion state)"
| "successors peer_review state = Some [senior_synthesis]"
| "successors senior_synthesis state = Some [consensus_check]"
| "successors consensus_check state =
     map_of consensus_path_map (check_consensus_routing state)"

text \<open>
  One step of the library's engine: every active node computes its update from the same
  state, the updates are merged into the state by the reducers, and the successors of the
  active nodes are the active nodes of the next step. The three analysis nodes are the
  only ones active together. The library runs them concurrently: the model takes their
  invocations in the order the nodes were added. The library merges the updates of a step
  in the order of the names of their nodes (strings are compared code point by code
  point), so the update of the risk analysis is merged before the one of the technical
  analysis.
\<close>

fun run_nodes ::
  "env \<Rightarrow> node list \<Rightarrow> MultiAgentState \<Rightarrow> world
    \<Rightarrow> pyerror + ((node \<times> update) list \<times> world)" where
  "run_nodes e [] state w = Inr ([], w)"
| "run_nodes e (n # ns) state w =
     (case run_node e n state w of
        Inl err \<Rightarrow> Inl err
      | Inr (u, w1) \<Rightarrow>
          (case run_nodes e ns state w1 of
             Inl err \<Rightarrow> Inl err
           | Inr (us, w2) \<Rightarrow> Inr ((n, u) # us, w2)))"

definition merge_order :: "(node \<times> update) list \<Rightarrow> update list" where
  "merge_order writes = map snd (sort_key (\<lambda>nu. node_name (fst nu)) writes)"

fun all_successors :: "node list \<Rightarrow> MultiAgentState \<Rightarrow> node list option" where
  "all_successors [] state = Some []"
| "all_successors (n # ns) state =
     (case successors n state of
        None \<Rightarrow> None
      | Some xs \<Rightarrow>
          (case all_successors ns state of
             None \<Rightarrow> None
           | Some ys \<Rightarrow> Some (xs @ ys)))"

definition superstep ::
  "env \<Rightarrow> node list \<Rightarrow> MultiAgentState \<Rightarrow> world
    \<Rightarrow> pyerror + (node list \<times> MultiAgentState \<times> world)" where
  "superstep e active state w =
     (case run_nodes e active state w of
        Inl err \<Rightarrow> Inl err
      | Inr (writes, w') \<Rightarrow>
          (let state' = foldl apply_update state (merge_order writes)
           in case all_successors active state' of
                None \<Rightarrow> Inl KeyError
              | Some next \<Rightarrow> Inr (remdups next, state', w')))"

text \<open>
  A run of the graph: it ends when no node is active. The recursion limit (25 unless the
  caller sets another) is the fuel of the model. The library raises
  \<open>GraphRecursionError\<close> as soon as the run has made as many steps as the limit
  allows without having ended before: a run of \<open>n\<close> steps ends only under a limit of
  \<open>n + 1\<close> or more.
\<close>

datatype run_result =
  Finished MultiAgentState world
  | Failed pyerror
  | GraphRecursionError

fun run ::
  "nat \<Rightarrow> env \<Rightarrow> node list \<Rightarrow> MultiAgentState \<Rightarrow> world \<Rightarrow> run_result" where
  "run 0 e active state w = GraphRecursionError"
| "run (Suc limit) e [] state w = Finished state w"
| "run (Suc limit) e (n # ns) state w =
     (case superstep e (n # ns) state w of
        Inl err \<Rightarrow> Failed err
      | Inr (next, state', w') \<Rightarrow> run limit e next state' w')"

text \<open>
  The state a run starts from: the caller gives a message transcript, a query, or both;
  no other key is set. The run starts at the coordinator (line 788), with no invocation
  made and the clock not read. The library refuses a recursion limit below 1 with a
  \<open>ValueError\<close>.
\<close>

definition input_state :: "message list \<Rightarrow> pystr field \<Rightarrow> MultiAgentState" where
  "input_state msgs query =
     \<lparr>messages = msgs, original_query = query, analyses = [],
      agent_feedbacks = Absent, revision_count = Absent, consensus_reached = Absent,
      final_report = Absent, workflow_stage = Absent, completion_status = Map.empty\<rparr>"

definition new_world :: world where
  "new_world = \<lparr>calls = [], clock_reads = 0\<rparr>"

definition graph_invoke :: "nat \<Rightarrow> env \<Rightarrow> MultiAgentState \<Rightarrow> run_result" where
  "graph_invoke limit e input =
     (if limit < 1 then Failed ValueError
      else run limit e [coordinator] input new_world)"

section \<open>Notions of the statements\<close>

text \<open>An invocation that returns, as opposed to one that raises.\<close>

fun is_returns :: "outcome \<Rightarrow> bool" where
  "is_returns (Returns c) = True"
| "is_returns (Raises err) = False"

text \<open>
  The outcomes of the three invocations the analysis nodes make in one step, from a state
  and a world: the three tasks carry the same query, and the invocations are taken in
  the order of the nodes.
\<close>

definition analysis_outcomes :: "env \<Rightarrow> MultiAgentState \<Rightarrow> world \<Rightarrow> outcome list" where
  "analysis_outcomes e state w =
     (let q = format_str (get_query state); k = length (calls w)
      in [agent_result e fundamental_agent (fundamental_task_prefix @ q) k,
          agent_result e technical_agent (technical_task_prefix @ q) (k + 1),
          agent_result e risk_agent (risk_task_prefix @ q) (k + 2)])"

text \<open>The three fixed keys are present and true.\<close>

definition all_complete :: "MultiAgentState \<Rightarrow> bool" where
  "all_complete state =
     (completion_status state (ascii ''fundamental'') = Some True \<and>
      completion_status state (ascii ''technical'') = Some True \<and>
      completion_status state (ascii ''risk'') = Some True)"

text \<open>How often the senior agent was invoked: once for every run of the synthesis node.\<close>

definition synthesis_runs :: "world \<Rightarrow> nat" where
  "synthesis_runs w = length (filter (\<lambda>c. fst c = senior_agent) (calls w))"

section \<open>Example inputs\<close>

text \<open>An environment in which every invocation returns a two-letter text.\<close>

definition example_env :: env where
  "example_env =
     \<lparr>agent_result = (\<lambda>a task k. Returns (ascii ''ok'')),
      clock_text = (\<lambda>k. ascii ''2025-01-01 00:00:00'')\<rparr>"

text \<open>
  An environment in which the first invocation of the fundamental analyst raises and every
  other invocation returns.
\<close>

definition failing_env :: env where
  "failing_env =
     \<lparr>agent_result =
        (\<lambda>a task k. if a = fundamental_agent \<and> k = 0 then Raises (ascii ''timeout'')
                     else Returns (ascii ''ok'')),
      clock_text = (\<lambda>k. ascii ''2025-01-01 00:00:00'')\<rparr>"

text \<open>A caller's input: one message, no other key.\<close>

definition example_input :: MultiAgentState where
  "example_input = input_state [HumanMessage (ascii ''Evaluate Company X'')] Absent"

text \<open>The same input once the three analyses have been written.\<close>

definition reviewed_input :: MultiAgentState where
  "reviewed_input =
     (input_state [HumanMessage (ascii ''Evaluate Company X'')] Absent)
       \<lparr>analyses := [fundamental_tag @ ascii ''ok'', technical_tag @ ascii ''ok'',
                     risk_tag @ ascii ''ok'']\<rparr>"

text \<open>An input with an empty query and no message.\<close>

definition empty_input :: MultiAgentState where
  "empty_input = input_state [] (Val [])"

section \<open>Strings, reducers and the merge\<close>

lemma ascii_keys_distinct:
  "ascii ''fundamental'' \<noteq> ascii ''technical''"
  "ascii ''fundamental'' \<noteq> ascii ''risk''"
  "ascii ''technical'' \<noteq> ascii ''risk''"
  "ascii ''technical'' \<noteq> ascii ''fundamental''"
  "ascii ''risk'' \<noteq> ascii ''fundamental''"
  "ascii ''risk'' \<noteq> ascii ''technical''"
  by (simp_all add: ascii_def)

lemma route_names_distinct:
  "ascii ''peer_review'' \<noteq> ascii ''wait_for_analyses''"
  "ascii ''wait_for_analyses'' \<noteq> ascii ''peer_review''"
  "END \<noteq> ascii ''peer_review''"
  "ascii ''peer_review'' \<noteq> END"
  by (simp_all add: ascii_def END_def)

lemma status_get_iff: "status_get m k = (m k = Some True)"
  by (cases "m k") (simp_all add: status_get_def)

lemma join_Cons: "join sep (x # xs) = (if xs = [] then x else x @ sep @ join sep xs)"
  by (cases xs) simp_all

lemma join_append_nonempty: "join sep ys \<noteq> [] \<Longrightarrow> join sep (xs @ ys) \<noteq> []"
proof (induction xs)
  case Nil
  then show ?case by simp
next
  case (Cons x xs)
  then show ?case by (auto simp add: join_Cons)
qed

lemma join_snoc_nonempty: "x \<noteq> [] \<Longrightarrow> join sep (xs @ [x]) \<noteq> []"
  by (rule join_append_nonempty) simp

lemma apply_update_fields:
  "messages (apply_update s u) =
     (case u_messages u of None \<Rightarrow> messages s | Some new \<Rightarrow> messages s @ new)"
  "original_query (apply_update s u) =
     (case u_original_query u of None \<Rightarrow> original_query s | Some v \<Rightarrow> Val v)"
  "analyses (apply_update s u) =
     (case u_analyses u of None \<Rightarrow> analyses s
      | Some new \<Rightarrow> add_analyses (Some (analyses s)) new)"
  "agent_feedbacks (apply_update s u) =
     (case u_agent_feedbacks u of None \<Rightarrow> agent_feedbacks s | Some v \<Rightarrow> Val v)"
  "revision_count (apply_update s u) =
     (case u_revision_count u of None \<Rightarrow> revision_count s | Some v \<Rightarrow> Val v)"
  "consensus_reached (apply_update s u) =
     (case u_consensus_reached u of None \<Rightarrow> consensus_reached s | Some v \<Rightarrow> Val v)"
  "final_report (apply_update s u) =
     (case u_final_report u of None \<Rightarrow> final_report s | Some v \<Rightarrow> Val v)"
  "workflow_stage (apply_update s u) =
     (case u_workflow_stage u of None \<Rightarrow> workflow_stage s | Some v \<Rightarrow> Val v)"
  "completion_status (apply_update s u) =
     (case u_completion_status u of None \<Rightarrow> completion_status s
      | Some new \<Rightarrow> completion_status s ++ new)"
  by (simp_all add: apply_update_def add_messages_def add_completion_status_def
        split: option.splits)

section \<open>What the nodes write\<close>

text \<open>An analysis node, whatever its analyst does.\<close>

lemma fundamental_node_writes:
  "fundamental_analysis_node e s w = (u, w') \<Longrightarrow>
     u_completion_status u = Some [ascii ''fundamental'' \<mapsto>
        is_returns (agent_result e fundamental_agent
          (fundamental_task_prefix @ format_str (get_query s)) (length (calls w)))] \<and>
     (\<exists>x. u_analyses u = Some (ListValue [x]) \<and> x \<noteq> []) \<and>
     u_revision_count u = None \<and> u_final_report u = None \<and> u_consensus_reached u = None \<and>
     calls w' = calls w @ [(fundamental_agent, fundamental_task_prefix @ format_str (get_query s))]"
  by (cases "agent_result e fundamental_agent
          (fundamental_task_prefix @ format_str (get_query s)) (length (calls w))")
     (auto simp add: fundamental_analysis_node_def invoke_def format_analysis_output_def
        strftime_now_def Let_def no_update_def fundamental_tag_def fundamental_failed_tag_def)

lemma technical_node_writes:
  "technical_analysis_node e s w = (u, w') \<Longrightarrow>
     u_completion_status u = Some [ascii ''technical'' \<mapsto>
        is_returns (agent_result e technical_agent
          (technical_task_prefix @ format_str (get_query s)) (length (calls w)))] \<and>
     (\<exists>x. u_analyses u = Some (ListValue [x]) \<and> x \<noteq> []) \<and>
     u_revision_count u = None \<and> u_final_report u = None \<and> u_consensus_reached u = None \<and>
     calls w' = calls w @ [(technical_agent, technical_task_prefix @ format_str (get_query s))]"
  by (cases "agent_result e technical_agent
          (technical_task_prefix @ format_str (get_query s)) (length (calls w))")
     (auto simp add: technical_analysis_node_def invoke_def format_analysis_output_def
        strftime_now_def Let_def no_update_def technical_tag_def technical_failed_tag_def)

lemma risk_node_writes:
  "risk_analysis_node e s w = (u, w') \<Longrightarrow>
     u_completion_status u = Some [ascii ''risk'' \<mapsto>
        is_returns (agent_result e risk_agent
          (risk_task_prefix @ format_str (get_query s)) (length (calls w)))] \<and>
     (\<exists>x. u_analyses u = Some (ListValue [x]) \<and> x \<noteq> []) \<and>
     u_revision_count u = None \<and> u_final_report u = None \<and> u_consensus_reached u = None \<and>
     calls w' = calls w @ [(risk_agent, risk_task_prefix @ format_str (get_query s))]"
  by (cases "agent_result e risk_agent
          (risk_task_prefix @ format_str (get_query s)) (length (calls w))")
     (auto simp add: risk_analysis_node_def invoke_def format_analysis_output_def
        strftime_now_def Let_def no_update_def risk_tag_def risk_failed_tag_def)

lemma analysis_node_calls:
  "calls (snd (fundamental_analysis_node e s w)) =
     calls w @ [(fundamental_agent, fundamental_task_prefix @ format_str (get_query s))]"
  "calls (snd (technical_analysis_node e s w)) =
     calls w @ [(technical_agent, technical_task_prefix @ format_str (get_query s))]"
  "calls (snd (risk_analysis_node e s w)) =
     calls w @ [(risk_agent, risk_task_prefix @ format_str (get_query s))]"
  by (simp_all add: fundamental_analysis_node_def technical_analysis_node_def
      risk_analysis_node_def invoke_def format_analysis_output_def strftime_now_def Let_def
      split: outcome.splits prod.splits)

lemma coordinator_calls: "calls (snd (coordinator_node e s w)) = calls w"
  by (simp add: coordinator_node_def format_analysis_output_def strftime_now_def Let_def)

lemma wait_node_keeps:
  "completion_status (apply_update s (wait_for_analyses_node s)) = completion_status s"
  "analyses (apply_update s (wait_for_analyses_node s)) = analyses s"
  "revision_count (apply_update s (wait_for_analyses_node s)) = revision_count s"
  by (simp_all add: apply_update_fields wait_for_analyses_node_def Let_def no_update_def)

text \<open>The peer review with something to review: three invocations and one record.\<close>

lemma peer_review_node_result:
  assumes "join [0xA, 0xA] (analyses s) \<noteq> []"
  shows "peer_review_node e s w =
    (let combined_analysis = join [0xA, 0xA] (analyses s);
         k = length (calls w);
         fundamental_review_task =
           fundamental_review_task_head @ combined_analysis @ fundamental_review_task_tail;
         technical_review_task =
           technical_review_task_head @ combined_analysis @ technical_review_task_tail;
         risk_review_task =
           risk_review_task_head @ combined_analysis @ risk_review_task_tail;
         feedbacks =
           [case agent_result e fundamental_agent fundamental_review_task k of
              Returns c \<Rightarrow> fundamental_review_tag @ c
            | Raises err \<Rightarrow> fundamental_review_failed,
            case agent_result e technical_agent technical_review_task (k + 1) of
              Returns c \<Rightarrow> technical_review_tag @ c
            | Raises err \<Rightarrow> technical_review_failed,
            case agent_result e risk_agent risk_review_task (k + 2) of
              Returns c \<Rightarrow> risk_review_tag @ c
            | Raises err \<Rightarrow> risk_review_failed];
         w3 = w\<lparr>calls := calls w @
                [(fundamental_agent, fundamental_review_task),
                 (technical_agent, technical_review_task),
                 (risk_agent, risk_review_task)]\<rparr>;
         formatted_feedback = fst (format_review_output e feedbacks w3)
     in (no_update\<lparr>u_messages := Some [AIMessage formatted_feedback],
           u_agent_feedbacks := Some
             [\<lparr>agent_name = ascii ''peer_review'',
               feedback_type = ascii ''critique'',
               feedback_content = formatted_feedback,
               confidence_score = 3602879701896397 / 4503599627370496,
               suggested_improvements = [improvement_hint]\<rparr>],
           u_workflow_stage := Some (ascii ''peer_review_completed'')\<rparr>,
         w3\<lparr>clock_reads := Suc (clock_reads w)\<rparr>))"
  using assms
  by (simp add: peer_review_node_def invoke_def format_review_output_def strftime_now_def
      Let_def split: prod.splits)

lemma peer_review_writes:
  assumes "peer_review_node e s w = (u, w')"
  shows "u_analyses u = None \<and> u_revision_count u = None \<and> u_final_report u = None \<and>
     u_consensus_reached u = None \<and> u_completion_status u = None \<and>
     synthesis_runs w' = synthesis_runs w"
proof (cases "join [0xA, 0xA] (analyses s) = []")
  case True
  then show ?thesis using assms
    by (auto simp add: peer_review_node_def no_update_def)
next
  case False
  then show ?thesis using assms
    by (auto simp add: peer_review_node_result Let_def no_update_def synthesis_runs_def)
qed

lemma synthesis_node_result:
  "fst (senior_synthesis_node e s w) =
     (case agent_result e senior_agent
             (synthesis_task_head @ join [0xA, 0xA] (ai_contents (messages s)) @ synthesis_task_tail)
             (length (calls w)) of
        Returns c \<Rightarrow>
          no_update\<lparr>u_messages := Some [AIMessage (fst (format_final_report e c
                         (w\<lparr>calls := calls w @ [(senior_agent,
                             synthesis_task_head @ join [0xA, 0xA] (ai_contents (messages s))
                               @ synthesis_task_tail)]\<rparr>)))],
                     u_final_report := Some c,
                     u_consensus_reached := Some True,
                     u_workflow_stage := Some (ascii ''synthesis_completed'')\<rparr>
      | Raises err \<Rightarrow>
          no_update\<lparr>u_messages := Some [AIMessage (fst (format_final_report e
                         (synthesis_error_head @ err)
                         (w\<lparr>calls := calls w @ [(senior_agent,
                             synthesis_task_head @ join [0xA, 0xA] (ai_contents (messages s))
                               @ synthesis_task_tail)]\<rparr>)))],
                     u_final_report := Some (synthesis_failed_prefix @ err),
                     u_consensus_reached := Some True,
                     u_workflow_stage := Some (ascii ''synthesis_failed'')\<rparr>)"
  by (simp add: senior_synthesis_node_def invoke_def Let_def split: outcome.splits prod.splits)

lemma synthesis_writes:
  "senior_synthesis_node e s w = (u, w') \<Longrightarrow>
     u_analyses u = None \<and> u_revision_count u = None \<and> (\<exists>r. u_final_report u = Some r) \<and>
     u_consensus_reached u = Some True \<and> u_completion_status u = None \<and>
     synthesis_runs w' = Suc (synthesis_runs w)"
  by (auto simp add: senior_synthesis_node_def invoke_def format_final_report_def
      strftime_now_def Let_def no_update_def synthesis_runs_def
      split: prod.splits outcome.splits)

section \<open>The steps of the graph\<close>

text \<open>The order in which the updates of the three analyses are merged.\<close>

lemma merge_order_analyses:
  "merge_order [(fundamental_analysis, u1), (technical_analysis, u2), (risk_analysis, u3)] =
     [u1, u3, u2]"
  by (simp add: merge_order_def ascii_def)

lemma check_analyses_completion_iff:
  "check_analyses_completion s =
     (if all_complete s then ascii ''peer_review'' else ascii ''wait_for_analyses'')"
  by (simp add: check_analyses_completion_def all_complete_def status_get_iff Let_def)

lemma all_complete_wait:
  "all_complete (apply_update s (wait_for_analyses_node s)) = all_complete s"
  by (simp add: all_complete_def wait_node_keeps)

lemma step_coordinator:
  "superstep e [coordinator] s w =
     Inr ([fundamental_analysis, technical_analysis, risk_analysis],
          apply_update s (fst (coordinator_node e s w)), snd (coordinator_node e s w))"
  by (simp add: superstep_def merge_order_def split: prod.splits)

lemma step_analyses:
  "\<exists>s' w'. superstep e [fundamental_analysis, technical_analysis, risk_analysis] s w =
       Inr ([wait_for_analyses], s', w') \<and>
     all_complete s' = list_all is_returns (analysis_outcomes e s w) \<and>
     join sep (analyses s') \<noteq> [] \<and>
     revision_count s' = revision_count s \<and>
     synthesis_runs w' = synthesis_runs w"
proof -
  obtain u1 w1 where n1: "fundamental_analysis_node e s w = (u1, w1)" by fastforce
  obtain u2 w2 where n2: "technical_analysis_node e s w1 = (u2, w2)" by fastforce
  obtain u3 w3 where n3: "risk_analysis_node e s w2 = (u3, w3)" by fastforce
  note f1 = fundamental_node_writes [OF n1]
  note f2 = technical_node_writes [OF n2]
  note f3 = risk_node_writes [OF n3]
  let ?s' = "apply_update (apply_update (apply_update s u1) u3) u2"
  have step: "superstep e [fundamental_analysis, technical_analysis, risk_analysis] s w =
       Inr ([wait_for_analyses], ?s', w3)"
    by (simp add: superstep_def n1 n2 n3 merge_order_analyses)
  have flags: "all_complete ?s' = list_all is_returns (analysis_outcomes e s w)"
    using f1 f2 f3
    by (simp add: all_complete_def apply_update_fields analysis_outcomes_def Let_def
        ascii_keys_distinct map_add_def)
  obtain x where "u_analyses u2 = Some (ListValue [x])" "x \<noteq> []" using f2 by blast
  then have log: "join sep (analyses ?s') \<noteq> []"
    by (simp add: apply_update_fields add_analyses_def join_snoc_nonempty)
  have rc: "revision_count ?s' = revision_count s"
    using f1 f2 f3 by (simp add: apply_update_fields)
  have runs: "synthesis_runs w3 = synthesis_runs w"
    using f1 f2 f3 by (simp add: synthesis_runs_def)
  show ?thesis using step flags log rc runs by blast
qed

lemma step_wait:
  "superstep e [wait_for_analyses] s w =
     Inr (if all_complete s then [peer_review] else [wait_for_analyses],
          apply_update s (wait_for_analyses_node s), w)"
  by (simp add: superstep_def merge_order_def check_analyses_completion_iff all_complete_wait
      completion_path_map_def route_names_distinct)

lemma step_peer_review:
  "superstep e [peer_review] s w =
     Inr ([senior_synthesis], apply_update s (fst (peer_review_node e s w)),
          snd (peer_review_node e s w))"
  by (simp add: superstep_def merge_order_def split: prod.splits)

lemma step_synthesis:
  "superstep e [senior_synthesis] s w =
     Inr ([consensus_check], apply_update s (fst (senior_synthesis_node e s w)),
          snd (senior_synthesis_node e s w))"
  by (simp add: superstep_def merge_order_def split: prod.splits)

lemma step_consensus:
  assumes "state_get (revision_count s) 0 = Some rc" "final_report s = Val r"
  shows "\<exists>s'. superstep e [consensus_check] s w =
     Inr (if 2 \<le> rc \<or> 500 < length r then [] else [peer_review], s', w) \<and>
     analyses s' = analyses s \<and>
     consensus_reached s' = Val (2 \<le> rc \<or> 500 < length r) \<and>
     revision_count s' = Val (if 2 \<le> rc \<or> 500 < length r then rc else rc + 1)"
proof -
  have node: "consensus_check_node s =
     Inr (no_update
       \<lparr>u_consensus_reached := Some (2 \<le> rc \<or> 500 < length r),
        u_revision_count := Some (if 2 \<le> rc \<or> 500 < length r then rc else rc + 1),
        u_workflow_stage := Some (ascii ''consensus_checked'')\<rparr>)"
    using assms by (cases "revision_count s") (simp_all add: consensus_check_node_def)
  show ?thesis
    by (simp add: superstep_def merge_order_def node apply_update_fields
        check_consensus_routing_def consensus_path_map_def route_names_distinct no_update_def)
qed

section \<open>The barrier and the revision loop\<close>

text \<open>The barrier is never left once a flag is not true.\<close>

lemma wait_forever:
  "\<not> all_complete s \<Longrightarrow> run limit e [wait_for_analyses] s w = GraphRecursionError"
proof (induction limit arbitrary: s)
  case 0
  then show ?case by simp
next
  case (Suc limit)
  from Suc.prems have "\<not> all_complete (apply_update s (wait_for_analyses_node s))"
    by (simp add: all_complete_wait)
  then show ?case using Suc.prems Suc.IH by (simp add: step_wait)
qed

text \<open>One pass of the revision loop: peer review, synthesis, consensus check.\<close>

lemma revision_pass:
  assumes "state_get (revision_count s) 0 = Some rc"
  shows "\<exists>s' w' fin. run (Suc (Suc (Suc limit))) e [peer_review] s w =
       run limit e (if fin then [] else [peer_review]) s' w' \<and>
       (2 \<le> rc \<longrightarrow> fin) \<and>
       consensus_reached s' = Val fin \<and>
       revision_count s' = Val (if fin then rc else rc + 1) \<and>
       synthesis_runs w' = Suc (synthesis_runs w)"
proof -
  obtain u1 w1 where n1: "peer_review_node e s w = (u1, w1)" by fastforce
  let ?s1 = "apply_update s u1"
  obtain u2 w2 where n2: "senior_synthesis_node e ?s1 w1 = (u2, w2)" by fastforce
  let ?s2 = "apply_update ?s1 u2"
  note f1 = peer_review_writes [OF n1]
  note f2 = synthesis_writes [OF n2]
  obtain r where r: "final_report ?s2 = Val r"
    using f2 by (auto simp add: apply_update_fields)
  have rc: "state_get (revision_count ?s2) 0 = Some rc"
    using assms f1 f2 by (simp add: apply_update_fields)
  obtain s3 where s3: "superstep e [consensus_check] ?s2 w2 =
       Inr (if 2 \<le> rc \<or> 500 < length r then [] else [peer_review], s3, w2)"
     "consensus_reached s3 = Val (2 \<le> rc \<or> 500 < length r)"
     "revision_count s3 = Val (if 2 \<le> rc \<or> 500 < length r then rc else rc + 1)"
    using step_consensus [OF rc r] by blast
  have "run (Suc (Suc (Suc limit))) e [peer_review] s w =
       run limit e (if 2 \<le> rc \<or> 500 < length r then [] else [peer_review]) s3 w2"
    by (simp add: step_peer_review step_synthesis n1 n2 s3)
  moreover have "synthesis_runs w2 = Suc (synthesis_runs w)"
    using f1 f2 by simp
  ultimately show ?thesis using s3
    by (intro exI [of _ s3] exI [of _ w2] exI [of _ "2 \<le> rc \<or> 500 < length r"]) simp
qed

lemma at_least_three: "3 \<le> n \<Longrightarrow> \<exists>l. n = Suc (Suc (Suc l))"
  by (rule exI [of _ "n - 3"]) arith

lemma run_no_node: "0 < limit \<Longrightarrow> run limit e [] s w = Finished s w"
  by (cases limit) simp_all

text \<open>
  The loop ends: from a revision count \<open>rc\<close> it makes at most \<open>2 - rc\<close> further passes
  after the first, of three steps each, and the limit must allow one step more.
\<close>

lemma revision_loop_ends:
  assumes "state_get (revision_count s) 0 = Some rc"
  shows "3 * (nat (2 - rc) + 1) < limit \<Longrightarrow>
     \<exists>s' w'. run limit e [peer_review] s w = Finished s' w' \<and>
       consensus_reached s' = Val True \<and>
       synthesis_runs w' \<le> synthesis_runs w + nat (2 - rc) + 1"
  using assms
proof (induction "nat (2 - rc)" arbitrary: rc s w limit)
  case 0
  then have "3 \<le> limit" by simp
  then obtain l where l: "limit = Suc (Suc (Suc l))"
    using at_least_three by blast
  from 0 l have "0 < l" by simp
  from 0 have "2 \<le> rc" by simp
  with revision_pass [OF "0.prems"(2), of l e w] \<open>0 < l\<close> show ?case
    unfolding l by (auto simp add: run_no_node)
next
  case (Suc k)
  from Suc.hyps(2) have k: "k = nat (2 - (rc + 1))" by simp
  from Suc.hyps(2) Suc.prems(1) have "3 \<le> limit" by simp
  then obtain l where l: "limit = Suc (Suc (Suc l))"
    using at_least_three by blast
  from Suc.prems(1) Suc.hyps(2) have l_enough: "3 * (nat (2 - (rc + 1)) + 1) < l"
    unfolding l by simp
  obtain s1 w1 fin where pass:
    "run limit e [peer_review] s w = run l e (if fin then [] else [peer_review]) s1 w1"
    "consensus_reached s1 = Val fin"
    "revision_count s1 = Val (if fin then rc else rc + 1)"
    "synthesis_runs w1 = Suc (synthesis_runs w)"
    using revision_pass [OF Suc.prems(2), of l e w] unfolding l by blast
  show ?case
  proof (cases fin)
    case True
    then show ?thesis using pass l_enough by (simp add: run_no_node)
  next
    case False
    then have "state_get (revision_count s1) 0 = Some (rc + 1)" using pass by simp
    from Suc.hyps(1) [OF k l_enough this, of w1] show ?thesis
      using pass False Suc.hyps(2) by auto
  qed
qed

text \<open>The first two steps: the coordinator, then the three analyses together.\<close>

lemma run_after_two_steps:
  "\<exists>s2 w2.
     (\<forall>limit. run (Suc (Suc limit)) e [coordinator] s w =
        run limit e [wait_for_analyses] s2 w2) \<and>
     all_complete s2 = list_all is_returns
       (analysis_outcomes e (apply_update s (fst (coordinator_node e s w)))
          (snd (coordinator_node e s w))) \<and>
     join [0xA, 0xA] (analyses s2) \<noteq> [] \<and>
     revision_count s2 = revision_count s \<and>
     synthesis_runs w2 = synthesis_runs w"
proof -
  let ?s1 = "apply_update s (fst (coordinator_node e s w))"
  let ?w1 = "snd (coordinator_node e s w)"
  obtain s2 w2 where s2:
    "superstep e [fundamental_analysis, technical_analysis, risk_analysis] ?s1 ?w1 =
       Inr ([wait_for_analyses], s2, w2)"
    "all_complete s2 = list_all is_returns (analysis_outcomes e ?s1 ?w1)"
    "join [0xA, 0xA] (analyses s2) \<noteq> []"
    "revision_count s2 = revision_count ?s1"
    "synthesis_runs w2 = synthesis_runs ?w1"
    using step_analyses [of e ?s1 ?w1 "[0xA, 0xA]"] by blast
  have "revision_count ?s1 = revision_count s"
    by (simp add: apply_update_fields coordinator_node_def Let_def no_update_def
        split: prod.splits)
  moreover have "\<forall>limit. run (Suc (Suc limit)) e [coordinator] s w =
      run limit e [wait_for_analyses] s2 w2"
    by (simp add: step_coordinator s2)
  moreover have "synthesis_runs ?w1 = synthesis_runs w"
    by (simp add: synthesis_runs_def coordinator_calls)
  ultimately show ?thesis using s2 by auto
qed

text \<open>
  When the three analyses return, a run from a caller's input ends within twelve steps,
  so under every recursion limit of 13 or more, with consensus marked and after at most
  three runs of the synthesis.
\<close>

lemma successful_analyses_end:
  assumes "list_all is_returns
     (analysis_outcomes e (apply_update (input_state msgs q)
         (fst (coordinator_node e (input_state msgs q) new_world)))
        (snd (coordinator_node e (input_state msgs q) new_world)))"
    and "13 \<le> limit"
  shows "\<exists>s' w'. graph_invoke limit e (input_state msgs q) = Finished s' w' \<and>
     consensus_reached s' = Val True \<and> synthesis_runs w' \<le> 3"
proof -
  obtain s2 w2 where s2:
    "\<forall>l. run (Suc (Suc l)) e [coordinator] (input_state msgs q) new_world =
       run l e [wait_for_analyses] s2 w2"
    "all_complete s2" "revision_count s2 = revision_count (input_state msgs q)"
    "synthesis_runs w2 = synthesis_runs new_world"
    using run_after_two_steps [of e "input_state msgs q" new_world] assms by blast
  from assms(2) have "3 \<le> limit" by simp
  then obtain l where l: "limit = Suc (Suc (Suc l))"
    using at_least_three by blast
  with assms(2) have "9 < l" by simp
  let ?s3 = "apply_update s2 (wait_for_analyses_node s2)"
  have rc: "state_get (revision_count ?s3) 0 = Some 0"
    using s2 by (simp add: wait_node_keeps input_state_def)
  have "graph_invoke limit e (input_state msgs q) = run l e [peer_review] ?s3 w2"
    using s2 \<open>9 < l\<close> by (cases l) (simp_all add: graph_invoke_def l step_wait)
  moreover have "\<exists>s' w'. run l e [peer_review] ?s3 w2 = Finished s' w' \<and>
       consensus_reached s' = Val True \<and> synthesis_runs w' \<le> synthesis_runs w2 + 2 + 1"
    using revision_loop_ends [OF rc, of l e w2] \<open>9 < l\<close> by simp
  moreover have "synthesis_runs w2 = 0"
    using s2 by (simp add: synthesis_runs_def new_world_def)
  ultimately show ?thesis by auto
qed

text \<open>A run from the empty input ends all the same: a missing query stops nothing.\<close>

lemma empty_input_run_ends:
  "\<exists>s' w'. graph_invoke 25 example_env empty_input = Finished s' w'"
proof -
  have "\<exists>s' w'. graph_invoke 25 example_env (input_state [] (Val [])) = Finished s' w' \<and>
     consensus_reached s' = Val True \<and> synthesis_runs w' \<le> 3"
    by (rule successful_analyses_end)
       (simp_all add: analysis_outcomes_def Let_def example_env_def)
  then show ?thesis by (auto simp add: empty_input_def)
qed

section \<open>The claims\<close>

text \<open>
  C1. When the analyst of an analysis node raises, the node appends the entry tagged with
  its role and the failure, holding the error text. It writes \<open>False\<close>, not
  \<open>True\<close>, under its key of \<open>completion_status\<close> (lines 424, 466 and 508), and the
  routing of the barrier, on the state that holds this update, returns
  \<open>wait_for_analyses\<close>: the barrier does not proceed. This is the code at the failing
  input, for each of the three roles.
\<close>

theorem failed_analysis_flag_false:
  "u_analyses (fst (fundamental_analysis_node (e\<lparr>agent_result := \<lambda>a task k. Raises err\<rparr>) s w))
     = Some (ListValue [fundamental_failed_tag @ err]) \<and>
   u_completion_status (fst (fundamental_analysis_node (e\<lparr>agent_result := \<lambda>a task k. Raises err\<rparr>) s w))
     = Some [ascii ''fundamental'' \<mapsto> False] \<and>
   check_analyses_completion (apply_update s
       (fst (fundamental_analysis_node (e\<lparr>agent_result := \<lambda>a task k. Raises err\<rparr>) s w)))
     = ascii ''wait_for_analyses'' \<and>
   u_analyses (fst (technical_analysis_node (e\<lparr>agent_result := \<lambda>a task k. Raises err\<rparr>) s w))
     = Some (ListValue [technical_failed_tag @ err]) \<and>
   u_completion_status (fst (technical_analysis_node (e\<lparr>agent_result := \<lambda>a task k. Raises err\<rparr>) s w))
     = Some [ascii ''technical'' \<mapsto> False] \<and>
   check_analyses_completion (apply_update s
       (fst (technical_analysis_node (e\<lparr>agent_result := \<lambda>a task k. Raises err\<rparr>) s w)))
     = ascii ''wait_for_analyses'' \<and>
   u_analyses (fst (risk_analysis_node (e\<lparr>agent_result := \<lambda>a task k. Raises err\<rparr>) s w))
     = Some (ListValue [risk_failed_tag @ err]) \<and>
   u_completion_status (fst (risk_analysis_node (e\<lparr>agent_result := \<lambda>a task k. Raises err\<rparr>) s w))
     = Some [ascii ''risk'' \<mapsto> False] \<and>
   check_analyses_completion (apply_update s
       (fst (risk_analysis_node (e\<lparr>agent_result := \<lambda>a task k. Raises err\<rparr>) s w)))
     = ascii ''wait_for_analyses''"
  by (simp add: fundamental_analysis_node_def technical_analysis_node_def risk_analysis_node_def
      invoke_def format_analysis_output_def strftime_now_def Let_def
      check_analyses_completion_iff all_complete_def apply_update_fields no_update_def)

text \<open>
  C2. When one of the three invocations of the analysis step raises, the run never
  reaches the end of the graph: whatever the input state and whatever the recursion
  limit, it is stopped by the limit, inside the self-loop of the barrier (a limit of 0 is
  refused before the run starts). (When the three return, a run from a caller's input
  ends within twelve steps after at most three passes of the revision loop: lemma
  \<open>successful_analyses_end\<close>.)
\<close>

theorem failed_analysis_never_ends:
  assumes "\<not> list_all is_returns
     (analysis_outcomes e (apply_update input (fst (coordinator_node e input new_world)))
        (snd (coordinator_node e input new_world)))"
  shows "graph_invoke limit e input =
     (if limit = 0 then Failed ValueError else GraphRecursionError)"
proof -
  obtain s2 w2 where s2:
    "\<forall>l. run (Suc (Suc l)) e [coordinator] input new_world = run l e [wait_for_analyses] s2 w2"
    "\<not> all_complete s2"
    using run_after_two_steps [of e input new_world] assms by blast
  show ?thesis
  proof (cases limit)
    case 0
    then show ?thesis by (simp add: graph_invoke_def)
  next
    case (Suc l)
    show ?thesis
    proof (cases l)
      case 0
      then show ?thesis using Suc by (simp add: graph_invoke_def step_coordinator)
    next
      case (Suc l')
      then show ?thesis using \<open>limit = Suc l\<close> s2 wait_forever [OF s2(2)]
        by (simp add: graph_invoke_def)
    qed
  qed
qed

text \<open>
  The hypothesis of C2 holds where the first invocation of the fundamental analyst
  raises, and the run of that input is stopped by the limit of 25 steps.
\<close>

theorem failed_analysis_never_ends_witness:
  "\<not> list_all is_returns
     (analysis_outcomes failing_env
        (apply_update example_input (fst (coordinator_node failing_env example_input new_world)))
        (snd (coordinator_node failing_env example_input new_world))) \<and>
   graph_invoke 25 failing_env example_input = GraphRecursionError"
proof -
  have h: "\<not> list_all is_returns
     (analysis_outcomes failing_env
        (apply_update example_input (fst (coordinator_node failing_env example_input new_world)))
        (snd (coordinator_node failing_env example_input new_world)))"
    by (simp add: analysis_outcomes_def Let_def failing_env_def coordinator_calls new_world_def)
  show ?thesis using h failed_analysis_never_ends [OF h, of 25] by simp
qed

text \<open>
  C3. The consensus gate has three outcomes, decided by the revision count and the final
  report alone: with a count of 2 or more, consensus and the count unchanged; otherwise
  with a report of more than 500 characters, consensus and the count unchanged; otherwise
  no consensus and the count raised by 1. So a count of 0 and a report of 600 characters
  give consensus and 0, a count of 0 and a report of 100 characters give no consensus and
  1, and a count of 2 gives consensus and 2 for any report. A count that is absent is
  read as 0 and a report that is absent as the empty string.
\<close>

theorem consensus_gate_outcomes:
  "consensus_check_node (s\<lparr>revision_count := Val rc, final_report := Val report\<rparr>) =
     Inr (if 2 \<le> rc then
            no_update\<lparr>u_consensus_reached := Some True, u_revision_count := Some rc,
                      u_workflow_stage := Some (ascii ''consensus_checked'')\<rparr>
          else if 500 < length report then
            no_update\<lparr>u_consensus_reached := Some True, u_revision_count := Some rc,
                      u_workflow_stage := Some (ascii ''consensus_checked'')\<rparr>
          else
            no_update\<lparr>u_consensus_reached := Some False, u_revision_count := Some (rc + 1),
                      u_workflow_stage := Some (ascii ''consensus_checked'')\<rparr>) \<and>
   consensus_check_node s =
     consensus_check_node (s'\<lparr>revision_count := revision_count s, final_report := final_report s\<rparr>) \<and>
   consensus_check_node (s\<lparr>revision_count := Absent\<rparr>) =
     consensus_check_node (s\<lparr>revision_count := Val 0\<rparr>) \<and>
   consensus_check_node (s\<lparr>final_report := Absent\<rparr>) =
     consensus_check_node (s\<lparr>final_report := Val []\<rparr>) \<and>
   consensus_check_node (s\<lparr>revision_count := Val 0, final_report := Val (replicate 600 c)\<rparr>) =
     Inr (no_update\<lparr>u_consensus_reached := Some True, u_revision_count := Some 0,
                      u_workflow_stage := Some (ascii ''consensus_checked'')\<rparr>) \<and>
   consensus_check_node (s\<lparr>revision_count := Val 0, final_report := Val (replicate 100 c)\<rparr>) =
     Inr (no_update\<lparr>u_consensus_reached := Some False, u_revision_count := Some 1,
                      u_workflow_stage := Some (ascii ''consensus_checked'')\<rparr>) \<and>
   consensus_check_node (s\<lparr>revision_count := Val 2, final_report := Val report\<rparr>) =
     Inr (no_update\<lparr>u_consensus_reached := Some True, u_revision_count := Some 2,
                      u_workflow_stage := Some (ascii ''consensus_checked'')\<rparr>)"
  by (simp add: consensus_check_node_def split: option.splits)

text \<open>
  C4, as amended. The synthesis marks consensus in both of its branches: when the senior
  analyst returns it stores the content as the final report, when it raises it stores
  "synthesis failed: " and the error text; the routing, taken on the state that holds
  this update, would end the run. But the routing is not taken there: in the graph the
  step after the synthesis is always the consensus check, and the step of the consensus
  check writes \<open>consensus_reached\<close> again before the routing reads it. After a
  synthesis that returned a report, the run goes back to the peer review exactly when
  the revision count is below 2 and the report has at most 500 characters, and ends
  otherwise.
\<close>

theorem synthesis_consensus_then_gate:
  "u_consensus_reached (fst (senior_synthesis_node e s w)) = Some True \<and>
   u_final_report (fst (senior_synthesis_node e s w)) =
     Some (case agent_result e senior_agent
                  (synthesis_task_head @ join [0xA, 0xA] (ai_contents (messages s))
                     @ synthesis_task_tail) (length (calls w)) of
             Returns c \<Rightarrow> c
           | Raises err \<Rightarrow> synthesis_failed_prefix @ err) \<and>
   check_consensus_routing (apply_update s (fst (senior_synthesis_node e s w))) = END \<and>
   successors senior_synthesis s' = Some [consensus_check] \<and>
   superstep e [senior_synthesis] s w =
     Inr ([consensus_check], apply_update s (fst (senior_synthesis_node e s w)),
          snd (senior_synthesis_node e s w)) \<and>
   (case superstep (e\<lparr>agent_result := \<lambda>a task k. Returns report\<rparr>) [senior_synthesis]
           (s\<lparr>revision_count := Val rc\<rparr>) w of
      Inl err \<Rightarrow> False
    | Inr (next1, s1, w1) \<Rightarrow>
        next1 = [consensus_check] \<and>
        consensus_reached s1 = Val True \<and>
        final_report s1 = Val report \<and>
        (case superstep (e\<lparr>agent_result := \<lambda>a task k. Returns report\<rparr>) next1 s1 w1 of
           Inl err \<Rightarrow> False
         | Inr (next2, s2, w2) \<Rightarrow>
             next2 = (if rc < 2 \<and> length report \<le> 500 then [peer_review] else []) \<and>
             consensus_reached s2 = Val (2 \<le> rc \<or> 500 < length report) \<and>
             run (Suc (Suc limit)) (e\<lparr>agent_result := \<lambda>a task k. Returns report\<rparr>)
                 [senior_synthesis] (s\<lparr>revision_count := Val rc\<rparr>) w =
               run limit (e\<lparr>agent_result := \<lambda>a task k. Returns report\<rparr>)
                 (if rc < 2 \<and> length report \<le> 500 then [peer_review] else []) s2 w2))"
proof -
  let ?e = "e\<lparr>agent_result := \<lambda>a task k. Returns report\<rparr>"
  let ?s = "s\<lparr>revision_count := Val rc\<rparr>"
  let ?s1 = "apply_update ?s (fst (senior_synthesis_node ?e ?s w))"
  let ?w1 = "snd (senior_synthesis_node ?e ?s w)"
  have node: "u_consensus_reached (fst (senior_synthesis_node e s w)) = Some True \<and>
     u_final_report (fst (senior_synthesis_node e s w)) =
       Some (case agent_result e senior_agent
                  (synthesis_task_head @ join [0xA, 0xA] (ai_contents (messages s))
                     @ synthesis_task_tail) (length (calls w)) of
             Returns c \<Rightarrow> c
           | Raises err \<Rightarrow> synthesis_failed_prefix @ err) \<and>
     check_consensus_routing (apply_update s (fst (senior_synthesis_node e s w))) = END"
    by (simp add: synthesis_node_result check_consensus_routing_def apply_update_fields
        no_update_def split: outcome.splits)
  have s1: "consensus_reached ?s1 = Val True" "final_report ?s1 = Val report"
    "state_get (revision_count ?s1) 0 = Some rc"
    by (simp_all add: synthesis_node_result apply_update_fields no_update_def)
  obtain s2 where s2: "superstep ?e [consensus_check] ?s1 ?w1 =
       Inr (if 2 \<le> rc \<or> 500 < length report then [] else [peer_review], s2, ?w1)"
     "consensus_reached s2 = Val (2 \<le> rc \<or> 500 < length report)"
    using step_consensus [OF s1(3) s1(2), of ?e ?w1] by blast
  have branch: "(if 2 \<le> rc \<or> 500 < length report then [] else [peer_review]) =
      (if rc < 2 \<and> length report \<le> 500 then [peer_review] else [])"
    by auto
  show ?thesis
    using node s1 s2 by (simp add: step_synthesis branch)
qed

text \<open>
  C4 as stated fails, on the path of a synthesis that succeeds: from the peer-reviewed
  example the synthesis returns a two-letter report and marks consensus; the step of the
  graph that follows is the consensus check, which writes no consensus, and the step after
  that is the peer review again.
\<close>

theorem short_report_is_revised:
  "(case superstep example_env [senior_synthesis] reviewed_input new_world of
      Inl err \<Rightarrow> False
    | Inr (next1, s1, w1) \<Rightarrow>
        next1 = [consensus_check] \<and>
        consensus_reached s1 = Val True \<and>
        final_report s1 = Val (ascii ''ok'') \<and>
        (case superstep example_env next1 s1 w1 of
           Inl err \<Rightarrow> False
         | Inr (next2, s2, w2) \<Rightarrow>
             next2 = [peer_review] \<and> consensus_reached s2 = Val False))"
proof -
  let ?s1 = "apply_update reviewed_input
     (fst (senior_synthesis_node example_env reviewed_input new_world))"
  let ?w1 = "snd (senior_synthesis_node example_env reviewed_input new_world)"
  have s1: "consensus_reached ?s1 = Val True" "final_report ?s1 = Val (ascii ''ok'')"
    "state_get (revision_count ?s1) 0 = Some 0"
    by (simp_all add: synthesis_node_result apply_update_fields no_update_def
        example_env_def reviewed_input_def input_state_def)
  obtain s2 where s2: "superstep example_env [consensus_check] ?s1 ?w1 =
       Inr (if (2::int) \<le> 0 \<or> 500 < length (ascii ''ok'') then [] else [peer_review], s2, ?w1)"
     "consensus_reached s2 = Val ((2::int) \<le> 0 \<or> 500 < length (ascii ''ok''))"
    using step_consensus [OF s1(3) s1(2), of example_env ?w1] by blast
  show ?thesis
    using s1 s2 by (simp add: step_synthesis ascii_def)
qed

text \<open>
  C5. The routing of the barrier returns \<open>peer_review\<close> if and only if the three keys
  \<open>fundamental\<close>, \<open>technical\<close> and \<open>risk\<close> are present and true, for every map of
  completion flags; otherwise it returns \<open>wait_for_analyses\<close>. The table of the
  conditional edge sends the first to the peer review and the second back to the barrier.
\<close>

theorem join_routing_iff:
  "(check_analyses_completion s = ascii ''peer_review'') =
     (completion_status s (ascii ''fundamental'') = Some True \<and>
      completion_status s (ascii ''technical'') = Some True \<and>
      completion_status s (ascii ''risk'') = Some True) \<and>
   (check_analyses_completion s = ascii ''wait_for_analyses'') =
     (\<not> (completion_status s (ascii ''fundamental'') = Some True \<and>
      completion_status s (ascii ''technical'') = Some True \<and>
      completion_status s (ascii ''risk'') = Some True)) \<and>
   map_of completion_path_map (ascii ''peer_review'') = Some [peer_review] \<and>
   map_of completion_path_map (ascii ''wait_for_analyses'') = Some [wait_for_analyses]"
  by (simp add: check_analyses_completion_def status_get_iff Let_def route_names_distinct
      completion_path_map_def)

text \<open>
  C6, as amended. When the joined text of the analyses is not empty, the peer review makes
  three invocations, one for each reviewing role in the order fundamental, technical,
  risk, and writes one feedback record, not three: its content is the formatted text of
  the three reviews, each the role's heading with the review or, for an invocation that
  raised, the role's fixed placeholder. The record replaces what \<open>agent_feedbacks\<close>
  held, so the state holds one record after the step.
\<close>

theorem peer_review_one_record:
  assumes "join [0xA, 0xA] (analyses s) \<noteq> []"
  shows "calls (snd (peer_review_node e s w)) = calls w @
      [(fundamental_agent, fundamental_review_task_head @ join [0xA, 0xA] (analyses s)
          @ fundamental_review_task_tail),
       (technical_agent, technical_review_task_head @ join [0xA, 0xA] (analyses s)
          @ technical_review_task_tail),
       (risk_agent, risk_review_task_head @ join [0xA, 0xA] (analyses s)
          @ risk_review_task_tail)] \<and>
    u_agent_feedbacks (fst (peer_review_node e s w)) = Some
      [\<lparr>agent_name = ascii ''peer_review'',
        feedback_type = ascii ''critique'',
        feedback_content = fst (format_review_output e
          [case agent_result e fundamental_agent
                  (fundamental_review_task_head @ join [0xA, 0xA] (analyses s)
                     @ fundamental_review_task_tail) (length (calls w)) of
             Returns c \<Rightarrow> fundamental_review_tag @ c
           | Raises err \<Rightarrow> fundamental_review_failed,
           case agent_result e technical_agent
                  (technical_review_task_head @ join [0xA, 0xA] (analyses s)
                     @ technical_review_task_tail) (length (calls w) + 1) of
             Returns c \<Rightarrow> technical_review_tag @ c
           | Raises err \<Rightarrow> technical_review_failed,
           case agent_result e risk_agent
                  (risk_review_task_head @ join [0xA, 0xA] (analyses s)
                     @ risk_review_task_tail) (length (calls w) + 2) of
             Returns c \<Rightarrow> risk_review_tag @ c
           | Raises err \<Rightarrow> risk_review_failed] w),
        confidence_score = 3602879701896397 / 4503599627370496,
        suggested_improvements = [improvement_hint]\<rparr>] \<and>
    (case agent_feedbacks (apply_update s (fst (peer_review_node e s w))) of
       Val fbs \<Rightarrow> length fbs = 1
     | _ \<Rightarrow> False)"
  by (simp add: peer_review_node_result [OF assms] Let_def apply_update_fields
      format_review_output_def strftime_now_def no_update_def)

text \<open>The hypothesis of C6 holds for three tagged analyses, and the record is written.\<close>

theorem peer_review_one_record_witness:
  "join [0xA, 0xA] (analyses reviewed_input) \<noteq> [] \<and>
   map_option (map agent_name)
     (u_agent_feedbacks (fst (peer_review_node example_env reviewed_input new_world))) =
     Some [ascii ''peer_review'']"
proof -
  have h: "join [0xA, 0xA] (analyses reviewed_input) \<noteq> []"
    by (simp add: reviewed_input_def fundamental_tag_def)
  show ?thesis using h peer_review_one_record [OF h, of example_env new_world] by simp
qed

text \<open>
  C6 as stated fails: with three analyses in the log and three invocations made, the
  peer review writes a list of one record.
\<close>

theorem peer_review_not_three_records:
  "analyses reviewed_input \<noteq> [] \<and>
   map_option length
     (u_agent_feedbacks (fst (peer_review_node example_env reviewed_input new_world))) = Some 1 \<and>
   length (calls (snd (peer_review_node example_env reviewed_input new_world))) = 3"
proof -
  have h: "join [0xA, 0xA] (analyses reviewed_input) \<noteq> []"
    by (simp add: reviewed_input_def fundamental_tag_def)
  show ?thesis
    by (simp add: peer_review_node_result [OF h] Let_def new_world_def)
       (simp add: reviewed_input_def)
qed

text \<open>
  C7, as amended. An analysis node raises nothing for a missing query: in every state it
  invokes its analyst once, with the task that ends in the query. The query is
  \<open>original_query\<close> when that is a string that is not empty; otherwise the content of
  the first message when there is one; otherwise, with no message, the empty string (and
  the text "None" when \<open>original_query\<close> holds \<open>None\<close>).
\<close>

theorem analysis_node_query:
  "run_node e fundamental_analysis s w = Inr (fundamental_analysis_node e s w) \<and>
   run_node e technical_analysis s w = Inr (technical_analysis_node e s w) \<and>
   run_node e risk_analysis s w = Inr (risk_analysis_node e s w) \<and>
   calls (snd (fundamental_analysis_node e s w)) =
     calls w @ [(fundamental_agent, fundamental_task_prefix @ format_str (get_query s))] \<and>
   calls (snd (technical_analysis_node e s w)) =
     calls w @ [(technical_agent, technical_task_prefix @ format_str (get_query s))] \<and>
   calls (snd (risk_analysis_node e s w)) =
     calls w @ [(risk_agent, risk_task_prefix @ format_str (get_query s))] \<and>
   format_str (get_query (s\<lparr>original_query := Val (c # cs)\<rparr>)) = c # cs \<and>
   format_str (get_query (s\<lparr>original_query := Val [], messages := m # ms\<rparr>)) = content m \<and>
   format_str (get_query (s\<lparr>original_query := Absent, messages := m # ms\<rparr>)) = content m \<and>
   format_str (get_query (s\<lparr>original_query := PyNone, messages := m # ms\<rparr>)) = content m \<and>
   format_str (get_query (s\<lparr>original_query := Val [], messages := []\<rparr>)) = [] \<and>
   format_str (get_query (s\<lparr>original_query := Absent, messages := []\<rparr>)) = [] \<and>
   format_str (get_query (s\<lparr>original_query := PyNone, messages := []\<rparr>)) = ascii ''None''"
  by (simp add: analysis_node_calls get_query_def)

text \<open>
  C7 as stated fails: with an empty query and no message the fundamental analysis node
  does not fail. It invokes its analyst with the task that ends where the query would
  stand, and writes its analysis and its flag.
\<close>

theorem empty_query_is_analysed:
  "original_query empty_input = Val [] \<and> messages empty_input = [] \<and>
   (case run_node example_env fundamental_analysis empty_input new_world of
      Inl err \<Rightarrow> False
    | Inr (u, w') \<Rightarrow>
        calls w' = [(fundamental_agent, fundamental_task_prefix)] \<and>
        u_analyses u = Some (ListValue [fundamental_tag @ ascii ''ok'']) \<and>
        u_completion_status u = Some [ascii ''fundamental'' \<mapsto> True])"
  by (simp add: empty_input_def input_state_def fundamental_analysis_node_def invoke_def
      format_analysis_output_def strftime_now_def Let_def example_env_def new_world_def
      get_query_def no_update_def)

text \<open>
  C8. With an empty list of analyses the peer review makes no invocation (the world is
  returned as it was), writes no feedback record, and returns only the fixed message
  "no analysis results available for review" and the stage \<open>peer_review_completed\<close>.
\<close>

theorem peer_review_empty_log:
  "peer_review_node e (s\<lparr>analyses := []\<rparr>) w =
     (no_update\<lparr>u_messages := Some [AIMessage no_analysis_message],
                u_workflow_stage := Some (ascii ''peer_review_completed'')\<rparr>, w) \<and>
   calls (snd (peer_review_node e (s\<lparr>analyses := []\<rparr>) w)) = calls w \<and>
   u_agent_feedbacks (fst (peer_review_node e (s\<lparr>analyses := []\<rparr>) w)) = None \<and>
   u_messages (fst (peer_review_node e (s\<lparr>analyses := []\<rparr>) w)) =
     Some [AIMessage no_analysis_message] \<and>
   u_workflow_stage (fst (peer_review_node e (s\<lparr>analyses := []\<rparr>) w)) =
     Some (ascii ''peer_review_completed'')"
  by (simp add: peer_review_node_def no_update_def)

text \<open>
  C9. Merging the one-item updates \<open>[a]\<close> and \<open>[b]\<close> into the list of analyses in
  either order gives lists with the same items, as sets and as multisets, and both hold
  \<open>a\<close> and \<open>b\<close>; a bare string is merged as the list of that one string.
\<close>

theorem add_analyses_either_order:
  "mset (add_analyses (Some (add_analyses existing (ListValue [a]))) (ListValue [b])) =
   mset (add_analyses (Some (add_analyses existing (ListValue [b]))) (ListValue [a])) \<and>
   set (add_analyses (Some (add_analyses existing (ListValue [a]))) (ListValue [b])) =
   set (add_analyses (Some (add_analyses existing (ListValue [b]))) (ListValue [a])) \<and>
   a \<in> set (add_analyses (Some (add_analyses existing (ListValue [a]))) (ListValue [b])) \<and>
   b \<in> set (add_analyses (Some (add_analyses existing (ListValue [a]))) (ListValue [b])) \<and>
   a \<in> set (add_analyses (Some (add_analyses existing (ListValue [b]))) (ListValue [a])) \<and>
   b \<in> set (add_analyses (Some (add_analyses existing (ListValue [b]))) (ListValue [a])) \<and>
   add_analyses existing (StrValue a) = add_analyses existing (ListValue [a]) \<and>
   add_analyses (Some [a]) (ListValue [b]) = [a, b]"
  by (auto simp add: add_analyses_def Let_def split: option.splits)

text \<open>
  C10. Every feedback record in the update of any node, in any state, with any outcome of
  the invocations, has the name \<open>peer_review\<close>, the type \<open>critique\<close>, the confidence
  score of the literal \<open>0.8\<close> and the one fixed suggested improvement; the score lies
  between 0 and 1.
\<close>

theorem feedback_fields_fixed:
  assumes "run_node e n s w = Inr (u, w')" and "u_agent_feedbacks u = Some fbs"
    and "fb \<in> set fbs"
  shows "agent_name fb = ascii ''peer_review'' \<and>
         feedback_type fb = ascii ''critique'' \<and>
         confidence_score fb = 3602879701896397 / 4503599627370496 \<and>
         suggested_improvements fb = [improvement_hint] \<and>
         0 \<le> confidence_score fb \<and> confidence_score fb \<le> 1"
proof (cases n)
  case peer_review
  show ?thesis
  proof (cases "join [0xA, 0xA] (analyses s) = []")
    case True
    then show ?thesis using assms peer_review
      by (auto simp add: peer_review_node_def no_update_def)
  next
    case False
    then show ?thesis using assms peer_review
      by (auto simp add: peer_review_node_result Let_def)
  qed
next
  case consensus_check
  then show ?thesis using assms
    by (auto simp add: consensus_check_node_def no_update_def split: option.splits if_splits)
qed (use assms in \<open>auto simp add: coordinator_node_def fundamental_analysis_node_def
      technical_analysis_node_def risk_analysis_node_def wait_for_analyses_node_def
      senior_synthesis_node_def Let_def no_update_def
      split: prod.splits outcome.splits if_splits\<close>)

text \<open>
  The hypotheses of C10 hold for the peer review of three tagged analyses: its update
  holds a record, and the record has the fixed fields.
\<close>

theorem feedback_fields_fixed_witness:
  "\<exists>u w' fb. run_node example_env peer_review reviewed_input new_world = Inr (u, w') \<and>
      u_agent_feedbacks u = Some [fb] \<and> fb \<in> set [fb] \<and>
      agent_name fb = ascii ''peer_review'' \<and>
      feedback_type fb = ascii ''critique'' \<and>
      confidence_score fb = 3602879701896397 / 4503599627370496 \<and>
      suggested_improvements fb = [improvement_hint] \<and>
      0 \<le> confidence_score fb \<and> confidence_score fb \<le> 1"
proof -
  have h: "join [0xA, 0xA] (analyses reviewed_input) \<noteq> []"
    by (simp add: reviewed_input_def fundamental_tag_def)
  obtain u w' where r: "run_node example_env peer_review reviewed_input new_world = Inr (u, w')"
    by (cases "peer_review_node example_env reviewed_input new_world") simp
  then obtain fb where fb: "u_agent_feedbacks u = Some [fb]"
    by (auto simp add: peer_review_node_result [OF h] Let_def)
  have m: "fb \<in> set [fb]" by simp
  from feedback_fields_fixed [OF r fb m] r fb m show ?thesis by blast
qed

end
